theory Spec2Isabelle
  imports Complex_Main "HOL-Library.Word"
begin

section \<open>Data model of the sales-coach front end\<close>

text \<open>
  The records follow \<^verbatim>\<open>frontend/src/types/representatives.ts\<close>. A field whose name is
  taken by a HOL constant or by another record carries the record's prefix.
  TypeScript's \<^verbatim>\<open>string | null\<close> is \<open>string option\<close>. The seven scores are declared
  \<^verbatim>\<open>number\<close> with the comment \<^verbatim>\<open>1-5\<close>; they are integers here, and every quotient is an
  exact real (the sums of such integers are exact in IEEE doubles as well).
\<close>

record AssessmentScores =
  situation :: int
  problem :: int
  implication :: int
  need_payoff :: int
  flow :: int
  tone :: int
  engagement :: int

record AssessmentCoaching =
  summary :: string
  wins :: "string list"
  gaps :: "string list"
  next_actions :: "string list"

record Representative =
  rep_id :: string
  email :: string
  full_name :: string
  department :: "string option"
  rep_is_active :: bool
  hire_date :: "string option"
  rep_created_at :: string

text \<open>The \<^verbatim>\<open>metadata\<close> field of a transcript (\<^verbatim>\<open>Record<string, any> | null\<close>) is read by
  none of the functions below and is left out.\<close>

record Transcript =
  t_id :: int
  representative_id :: "string option"
  buyer_id :: "string option"
  transcript :: string
  t_created_at :: string

record Assessment =
  a_id :: int
  transcript_id :: int
  scores :: AssessmentScores
  coaching :: AssessmentCoaching
  model_name :: string
  prompt_version :: string
  latency_ms :: "int option"
  created_at :: string

section \<open>Composite SPIN score\<close>

text \<open>
  \<^verbatim>\<open>calculateCompositeScore\<close> occurs with the same body in the transcripts table, the
  assessment header, the overall score card and the representatives page:
  \<^verbatim>\<open>(situation + problem + implication + need_payoff + flow + tone + engagement) / 7\<close>.
  The upload dialog has the same body under the name \<^verbatim>\<open>calculateAverageScore\<close>.
\<close>

definition calculateCompositeScore :: "AssessmentScores \<Rightarrow> real" where
  "calculateCompositeScore s =
     real_of_int (situation s + problem s + implication s + need_payoff s
                  + flow s + tone s + engagement s) / 7"

definition calculateAverageScore :: "AssessmentScores \<Rightarrow> real" where
  "calculateAverageScore s =
     real_of_int (situation s + problem s + implication s + need_payoff s
                  + flow s + tone s + engagement s) / 7"

text \<open>The specification's side: the seven dimensions in the order it lists them, and the
  arithmetic mean of a list of numbers.\<close>

definition seven_dimension_scores :: "AssessmentScores \<Rightarrow> int list" where
  "seven_dimension_scores s =
     [situation s, problem s, implication s, need_payoff s, flow s, tone s, engagement s]"

definition arithmetic_mean :: "int list \<Rightarrow> real" where
  "arithmetic_mean xs = real_of_int (sum_list xs) / real (length xs)"

definition scenario_scores :: AssessmentScores where
  "scenario_scores =
     \<lparr>situation = 4, problem = 3, implication = 4, need_payoff = 3,
      flow = 4, tone = 4, engagement = 3\<rparr>"

section \<open>Queue count of the representatives table\<close>

text \<open>
  From \<^verbatim>\<open>RepresentativesPage\<close>, the body of the \<^verbatim>\<open>aggregatedData\<close> memo for one
  representative: the transcripts of the representative, the assessments of those
  transcripts, and the number of those assessments below the threshold.
\<close>

definition QUEUE_THRESHOLD :: real where
  "QUEUE_THRESHOLD = 3.0"

definition repTranscripts :: "Representative \<Rightarrow> Transcript list \<Rightarrow> Transcript list" where
  "repTranscripts rep transcripts =
     filter (\<lambda>t. representative_id t = Some (rep_id rep)) transcripts"

definition repAssessments ::
  "Representative \<Rightarrow> Transcript list \<Rightarrow> Assessment list \<Rightarrow> Assessment list" where
  "repAssessments rep transcripts assessments =
     filter (\<lambda>a. list_ex (\<lambda>t. t_id t = transcript_id a) (repTranscripts rep transcripts))
            assessments"

definition queueCount :: "Representative \<Rightarrow> Transcript list \<Rightarrow> Assessment list \<Rightarrow> nat" where
  "queueCount rep transcripts assessments =
     length (filter (\<lambda>a. calculateCompositeScore (scores a) < QUEUE_THRESHOLD)
                    (repAssessments rep transcripts assessments))"

text \<open>The specification's side: an assessment is attached to a representative when its
  transcript belongs to the representative.\<close>

definition attached_to :: "Representative \<Rightarrow> Transcript list \<Rightarrow> Assessment \<Rightarrow> bool" where
  "attached_to rep transcripts a \<longleftrightarrow>
     (\<exists>t \<in> set transcripts. representative_id t = Some (rep_id rep) \<and> t_id t = transcript_id a)"

section \<open>JavaScript values used by the handlers\<close>

text \<open>
  A text of the settings pages is modelled by a \<open>string\<close>: each \<open>char\<close> stands for one code
  unit in the range U+0000 to U+00FF. In that range the white space removed by
  \<^verbatim>\<open>String.prototype.trim\<close> (and matched by \<^verbatim>\<open>\s\<close>) is TAB, LF, VT, FF, CR, SPACE and
  NBSP.
\<close>

definition isWhiteSpace :: "char \<Rightarrow> bool" where
  "isWhiteSpace c \<longleftrightarrow> of_char c \<in> {9, 10, 11, 12, 13, 32, 160 :: nat}"

definition trim :: "string \<Rightarrow> string" where
  "trim s = rev (dropWhile isWhiteSpace (rev (dropWhile isWhiteSpace s)))"

fun startsWith :: "'a list \<Rightarrow> 'a list \<Rightarrow> bool" where
  "startsWith s [] = True"
| "startsWith [] (c # t) = False"
| "startsWith (x # s) (c # t) = (x = c \<and> startsWith s t)"

text \<open>\<^verbatim>\<open>s.includes(t)\<close>: \<open>t\<close> occurs in \<open>s\<close> at some position; the same for a text and for
  a string of code units.\<close>

fun js_includes :: "'a list \<Rightarrow> 'a list \<Rightarrow> bool" where
  "js_includes [] t = (t = [])"
| "js_includes (x # s) t = (startsWith (x # s) t \<or> js_includes s t)"

text \<open>Truthiness of a \<^verbatim>\<open>string | null | undefined\<close>: only a non-empty string is truthy.\<close>

fun truthy_string :: "string option \<Rightarrow> bool" where
  "truthy_string None = False"
| "truthy_string (Some s) = (s \<noteq> [])"

text \<open>What a \<^verbatim>\<open>throw\<close> or a rejected promise carries: an \<^verbatim>\<open>Error\<close> (a \<^verbatim>\<open>TypeError\<close>
  is one) with its message, or another value.\<close>

datatype thrown = Error string | NonError

definition error_message :: "thrown \<Rightarrow> string \<Rightarrow> string" where
  "error_message e fallback = (case e of Error m \<Rightarrow> m | NonError \<Rightarrow> fallback)"

section \<open>Saving a prompt template\<close>

text \<open>From \<^verbatim>\<open>frontend/src/app/settings/prompt-templates/page.tsx\<close> and the API client.\<close>

record PromptTemplate =
  pt_id :: string
  organization_id :: string
  pt_name :: string
  pt_version :: string
  pt_system_prompt :: string
  pt_user_template :: string
  is_active :: bool
  pt_created_at :: string
  pt_updated_at :: string

record PromptTemplateCreate =
  ptc_name :: string
  ptc_version :: "string option"
  ptc_system_prompt :: string
  ptc_user_template :: string
  ptc_is_active :: "bool option"

text \<open>The state of \<^verbatim>\<open>TemplateEditorDialog\<close>: its six \<^verbatim>\<open>useState\<close> cells, the \<^verbatim>\<open>open\<close>
  property that \<^verbatim>\<open>onOpenChange\<close> controls, and the \<^verbatim>\<open>template\<close> property (the
  template being edited, if any).\<close>

record TemplateEditor =
  ed_name :: string
  ed_version :: string
  systemPrompt :: string
  userTemplate :: string
  isLoading :: bool
  ed_error :: "string option"
  ed_open :: bool
  ed_template :: "PromptTemplate option"

text \<open>
  \<^verbatim>\<open>TemplateEditorDialog.handleSave\<close>. The callback \<^verbatim>\<open>onSave\<close> acts on the world outside
  the dialog (type \<open>'w\<close>): it returns what it threw, if anything, and the world it left.
\<close>

definition TemplateEditorDialog_handleSave ::
  "(PromptTemplateCreate \<Rightarrow> string option \<Rightarrow> 'w \<Rightarrow> thrown option \<times> 'w)
   \<Rightarrow> TemplateEditor \<Rightarrow> 'w \<Rightarrow> TemplateEditor \<times> 'w" where
  "TemplateEditorDialog_handleSave onSave ed w =
     (if trim (ed_name ed) = [] then (ed\<lparr>ed_error := Some ''Name is required''\<rparr>, w)
      else if trim (systemPrompt ed) = [] then
        (ed\<lparr>ed_error := Some ''System prompt is required''\<rparr>, w)
      else if trim (userTemplate ed) = [] then
        (ed\<lparr>ed_error := Some ''User template is required''\<rparr>, w)
      else if \<not> js_includes (userTemplate ed) ''{transcript}'' then
        (ed\<lparr>ed_error := Some ''User template must contain {transcript} placeholder''\<rparr>, w)
      else
        (let data = \<lparr>ptc_name = trim (ed_name ed),
                     ptc_version = Some (if trim (ed_version ed) = [] then ''v1''
                                         else trim (ed_version ed)),
                     ptc_system_prompt = systemPrompt ed,
                     ptc_user_template = userTemplate ed,
                     ptc_is_active = None\<rparr>
         in case onSave data (map_option pt_id (ed_template ed)) w of
              (None, w') \<Rightarrow> (ed\<lparr>isLoading := False, ed_error := None, ed_open := False\<rparr>, w')
            | (Some e, w') \<Rightarrow>
                (ed\<lparr>isLoading := False,
                    ed_error := Some (error_message e ''Failed to save template'')\<rparr>, w')))"

text \<open>
  The requests of the page to the backend. The world of the page is the list of requests
  sent so far; \<open>backend\<close> tells which of the saving requests are answered with an error.
  \<^verbatim>\<open>loadTemplates\<close>, which ends \<^verbatim>\<open>handleSave\<close>, sends two reading requests and catches
  its own errors.
\<close>

datatype template_request =
  CreatePromptTemplate PromptTemplateCreate
| UpdatePromptTemplate string PromptTemplateCreate
| FetchPromptTemplates
| FetchPromptTemplateDefaults

definition PromptTemplates_handleSave ::
  "(template_request \<Rightarrow> thrown option) \<Rightarrow> string option
   \<Rightarrow> PromptTemplateCreate \<Rightarrow> string option
   \<Rightarrow> template_request list \<Rightarrow> thrown option \<times> template_request list" where
  "PromptTemplates_handleSave backend accessToken data template_id sent =
     (if \<not> truthy_string accessToken then (None, sent)
      else
        (let request = (case template_id of
                          Some i \<Rightarrow> if i \<noteq> [] then UpdatePromptTemplate i data
                                    else CreatePromptTemplate data
                        | None \<Rightarrow> CreatePromptTemplate data)
         in case backend request of
              Some e \<Rightarrow> (Some e, sent @ [request])
            | None \<Rightarrow>
                (None, sent @ [request, FetchPromptTemplates, FetchPromptTemplateDefaults])))"

section \<open>Activating a prompt template\<close>

text \<open>
  The page's \<^verbatim>\<open>handleActivate\<close> posts to \<^verbatim>\<open>/prompt-templates/{id}/activate\<close> and reloads
  the list; \<^verbatim>\<open>TemplateCard\<close> renders the Activate button for an administrator on a
  template that is not active. The world is the backend's table of templates.
\<close>

definition TemplateCard_offers_activate :: "bool \<Rightarrow> PromptTemplate \<Rightarrow> bool" where
  "TemplateCard_offers_activate isAdmin template \<longleftrightarrow> isAdmin \<and> \<not> is_active template"

text \<open>
  Modelled from the spec: the backend handler of the activation request is not among the
  sources. "Activating one template must atomically deactivate the previous active
  template for that tenant" (section 3); the API client documents the call as "sets it
  as the active one for the org". A request for an unknown id is answered with an error.
\<close>

definition set_active :: "PromptTemplate \<Rightarrow> PromptTemplate \<Rightarrow> PromptTemplate" where
  "set_active target t =
     (if organization_id t = organization_id target
      then t\<lparr>is_active := (pt_id t = pt_id target)\<rparr> else t)"

definition activatePromptTemplate ::
  "string \<Rightarrow> PromptTemplate list \<Rightarrow> thrown option \<times> PromptTemplate list" where
  "activatePromptTemplate tid table =
     (case find (\<lambda>t. pt_id t = tid) table of
        None \<Rightarrow> (Some (Error ''Not Found''), table)
      | Some target \<Rightarrow> (None, map (set_active target) table))"

definition PromptTemplates_handleActivate ::
  "string option \<Rightarrow> string \<Rightarrow> PromptTemplate list \<Rightarrow> thrown option \<times> PromptTemplate list" where
  "PromptTemplates_handleActivate accessToken tid table =
     (if \<not> truthy_string accessToken then (None, table)
      else activatePromptTemplate tid table)"

text \<open>The active templates of a tenant, their number, and the number of templates of the
  tenant that an operation turned from active to inactive.\<close>

definition active_templates :: "string \<Rightarrow> PromptTemplate list \<Rightarrow> PromptTemplate list" where
  "active_templates org table = filter (\<lambda>t. organization_id t = org \<and> is_active t) table"

definition active_count :: "string \<Rightarrow> PromptTemplate list \<Rightarrow> nat" where
  "active_count org table =
     length (filter (\<lambda>t. organization_id t = org \<and> is_active t) table)"

definition deactivated_count :: "string \<Rightarrow> PromptTemplate list \<Rightarrow> PromptTemplate list \<Rightarrow> nat" where
  "deactivated_count org before after =
     length (filter (\<lambda>(b, a). organization_id b = org \<and> is_active b \<and> \<not> is_active a)
                    (zip before after))"

section \<open>Editing an evaluation dataset\<close>

text \<open>From \<^verbatim>\<open>frontend/src/app/settings/evaluations/page.tsx\<close> and the API client. A
  \<^verbatim>\<open>File\<close> is its text; \<open>None\<close> is \<^verbatim>\<open>null\<close>.\<close>

datatype source_type = csv | langsmith | database

record EvaluationDataset =
  ds_id :: string
  ds_organization_id :: string
  ds_name :: string
  ds_description :: "string option"
  ds_source_type :: source_type
  ds_source_path :: "string option"
  num_examples :: nat
  langsmith_dataset_name :: "string option"
  langsmith_dataset_id :: "string option"
  ds_created_at :: string
  ds_updated_at :: string

record EvaluationDatasetCreate =
  dc_name :: string
  dc_description :: "string option"
  dc_file :: "string option"

record EvaluationDatasetUpdate =
  du_name :: "string option"
  du_description :: "string option"
  du_source_path :: "string option"

text \<open>
  Modelled from the spec: the backend handler of \<^verbatim>\<open>PATCH /evaluations/datasets/{id}\<close> is
  not among the sources. A dataset is "immutable once created except for administrative
  rename/describe"; the request type \<^verbatim>\<open>EvaluationDatasetUpdate\<close> has three optional
  fields, and the handler is taken to store each field that the request carries and to
  leave the others. A request for an unknown id is answered with an error.
\<close>

definition patch_dataset :: "EvaluationDatasetUpdate \<Rightarrow> EvaluationDataset \<Rightarrow> EvaluationDataset" where
  "patch_dataset u d =
     d\<lparr>ds_name := (case du_name u of Some n \<Rightarrow> n | None \<Rightarrow> ds_name d),
       ds_description := (case du_description u of Some x \<Rightarrow> Some x | None \<Rightarrow> ds_description d),
       ds_source_path := (case du_source_path u of Some p \<Rightarrow> Some p | None \<Rightarrow> ds_source_path d)\<rparr>"

definition updateEvaluationDataset ::
  "string \<Rightarrow> EvaluationDatasetUpdate \<Rightarrow> EvaluationDataset list
   \<Rightarrow> thrown option \<times> EvaluationDataset list" where
  "updateEvaluationDataset did u table =
     (if list_ex (\<lambda>d. ds_id d = did) table
      then (None, map (\<lambda>d. if ds_id d = did then patch_dataset u d else d) table)
      else (Some (Error ''Not Found''), table))"

text \<open>
  \<^verbatim>\<open>Evaluations.handleSave\<close>. The world is the backend's table of datasets;
  \<open>createEvaluationDataset\<close>, the upload of a new dataset, is a parameter.
  \<^verbatim>\<open>loadData\<close>, which ends the handler, sends two GET requests, writes page state only
  and catches its own errors.
\<close>

definition Evaluations_handleSave ::
  "(EvaluationDatasetCreate \<Rightarrow> EvaluationDataset list \<Rightarrow> thrown option \<times> EvaluationDataset list)
   \<Rightarrow> string option \<Rightarrow> EvaluationDatasetCreate \<Rightarrow> string option
   \<Rightarrow> EvaluationDataset list \<Rightarrow> thrown option \<times> EvaluationDataset list" where
  "Evaluations_handleSave createEvaluationDataset accessToken data did table =
     (if \<not> truthy_string accessToken then (None, table)
      else if truthy_string did then
        updateEvaluationDataset (the did)
          \<lparr>du_name = Some (dc_name data), du_description = dc_description data,
           du_source_path = None\<rparr> table
      else createEvaluationDataset data table)"

section \<open>The latest assessment of a transcript\<close>

text \<open>
  From \<^verbatim>\<open>AssessmentDetailPage\<close> (\<^verbatim>\<open>fetchData\<close>). \<open>getTime s\<close> stands for
  \<^verbatim>\<open>new Date(s).getTime()\<close>: the milliseconds since the epoch, or \<open>None\<close> for \<^verbatim>\<open>NaN\<close>
  when \<open>s\<close> is not a date. A difference with \<^verbatim>\<open>NaN\<close> is \<^verbatim>\<open>NaN\<close>.
\<close>

definition by_created_at_descending ::
  "(string \<Rightarrow> int option) \<Rightarrow> Assessment \<Rightarrow> Assessment \<Rightarrow> int option" where
  "by_created_at_descending getTime a b =
     (case (getTime (created_at b), getTime (created_at a)) of
        (Some tb, Some ta) \<Rightarrow> Some (tb - ta)
      | _ \<Rightarrow> None)"

text \<open>
  \<^verbatim>\<open>Array.prototype.sort\<close> with a comparator: a comparator result of \<^verbatim>\<open>NaN\<close> counts as
  \<open>0\<close>, and the sort is stable. It is modelled by insertion from the right, which puts an
  element before the first element it does not have to follow.
\<close>

definition SortCompare :: "('a \<Rightarrow> 'a \<Rightarrow> int option) \<Rightarrow> 'a \<Rightarrow> 'a \<Rightarrow> int" where
  "SortCompare comparefn x y = (case comparefn x y of None \<Rightarrow> 0 | Some v \<Rightarrow> v)"

fun insert_sorted :: "('a \<Rightarrow> 'a \<Rightarrow> int option) \<Rightarrow> 'a \<Rightarrow> 'a list \<Rightarrow> 'a list" where
  "insert_sorted comparefn x [] = [x]"
| "insert_sorted comparefn x (y # ys) =
     (if SortCompare comparefn x y \<le> 0 then x # y # ys
      else y # insert_sorted comparefn x ys)"

definition array_sort :: "('a \<Rightarrow> 'a \<Rightarrow> int option) \<Rightarrow> 'a list \<Rightarrow> 'a list" where
  "array_sort comparefn xs = foldr (insert_sorted comparefn) xs []"

text \<open>The value handed to \<^verbatim>\<open>setAssessment\<close>, or \<open>None\<close> when the state keeps its initial
  \<^verbatim>\<open>null\<close>.\<close>

definition latest_assessment :: "(string \<Rightarrow> int option) \<Rightarrow> Assessment list \<Rightarrow> Assessment option" where
  "latest_assessment getTime assessments =
     (if length assessments > 0
      then (case array_sort (by_created_at_descending getTime) assessments of
              [] \<Rightarrow> None
            | first # _ \<Rightarrow> Some first)
      else None)"

text \<open>A list of assessments runs from the newest to the oldest.\<close>

definition newest_first :: "(string \<Rightarrow> int option) \<Rightarrow> Assessment list \<Rightarrow> bool" where
  "newest_first getTime xs \<longleftrightarrow>
     sorted_wrt (\<lambda>a b. the (getTime (created_at b)) \<le> the (getTime (created_at a))) xs"

section \<open>Parsing a transcript for display\<close>

text \<open>
  The text of a transcript is any JavaScript string: a sequence of 16-bit code units.
  \<open>js\<close> writes a literal of the program, whose characters are all below U+0100, as code
  units.
\<close>

type_synonym code_unit = "16 word"

type_synonym jsstring = "code_unit list"

definition js :: "string \<Rightarrow> jsstring" where
  "js s = map of_char s"

text \<open>
  The line terminators of ECMAScript, which \<^verbatim>\<open>.\<close> does not match in a regular expression
  without the \<^verbatim>\<open>s\<close> flag: LF, CR, LINE SEPARATOR and PARAGRAPH SEPARATOR.
\<close>

definition isLineTerminator :: "code_unit \<Rightarrow> bool" where
  "isLineTerminator c \<longleftrightarrow> c \<in> {0x000A, 0x000D, 0x2028, 0x2029}"

text \<open>
  What \<^verbatim>\<open>String.prototype.trim\<close> removes and \<^verbatim>\<open>\s\<close> matches: the white space of
  ECMAScript (TAB, VT, FF, the byte order mark U+FEFF and the space separators SPACE,
  NBSP, U+1680, U+2000 to U+200A, U+202F, U+205F and U+3000) and the line terminators.
\<close>

definition js_white_space :: "code_unit \<Rightarrow> bool" where
  "js_white_space c \<longleftrightarrow>
     c \<in> {0x0009, 0x000B, 0x000C, 0x0020, 0x00A0, 0x1680, 0x202F, 0x205F, 0x3000, 0xFEFF}
     \<or> (0x2000 \<le> c \<and> c \<le> 0x200A)
     \<or> isLineTerminator c"

definition js_trim :: "jsstring \<Rightarrow> jsstring" where
  "js_trim s = rev (dropWhile js_white_space (rev (dropWhile js_white_space s)))"

text \<open>
  What \<^verbatim>\<open>JSON.parse\<close> returns is a value of the type \<open>json\<close>; the members of an object
  are listed once per key, as \<^verbatim>\<open>JSON.parse\<close> delivers them. An optional value is
  \<^verbatim>\<open>undefined\<close> when it is \<open>None\<close>.
\<close>

datatype json =
  JNull
| JBool bool
| JNumber real
| JString jsstring
| JArray "json list"
| JObject "(jsstring \<times> json) list"

fun truthy :: "json option \<Rightarrow> bool" where
  "truthy None = False"
| "truthy (Some JNull) = False"
| "truthy (Some (JBool b)) = b"
| "truthy (Some (JNumber n)) = (n \<noteq> 0)"
| "truthy (Some (JString s)) = (s \<noteq> [])"
| "truthy (Some (JArray items)) = True"
| "truthy (Some (JObject members)) = True"

text \<open>\<^verbatim>\<open>a || b\<close>, and \<^verbatim>\<open>a || d\<close> for an operand \<open>d\<close> that is never \<^verbatim>\<open>undefined\<close>.\<close>

definition logical_or :: "json option \<Rightarrow> json option \<Rightarrow> json option" where
  "logical_or a b = (if truthy a then a else b)"

definition or_default :: "json option \<Rightarrow> json \<Rightarrow> json" where
  "or_default a d = (case a of Some v \<Rightarrow> if truthy (Some v) then v else d | None \<Rightarrow> d)"

text \<open>
  A property read \<^verbatim>\<open>item.key\<close>, for the four keys \<^verbatim>\<open>parseTranscript\<close> reads
  (\<^verbatim>\<open>speaker_id\<close>, \<^verbatim>\<open>speaker\<close>, \<^verbatim>\<open>text\<close>, \<^verbatim>\<open>content\<close>): on \<^verbatim>\<open>null\<close> it throws a
  \<^verbatim>\<open>TypeError\<close>; an object yields its member; a boolean, a number, a string and an
  array have no property of these names.
\<close>

fun get_property :: "json \<Rightarrow> jsstring \<Rightarrow> thrown + json option" where
  "get_property JNull key = Inl (Error ''TypeError'')"
| "get_property (JObject members) key = Inr (map_of members key)"
| "get_property (JBool b) key = Inr None"
| "get_property (JNumber n) key = Inr None"
| "get_property (JString s) key = Inr None"
| "get_property (JArray items) key = Inr None"

text \<open>
  \<^verbatim>\<open>String.prototype.toLowerCase\<close> is the lower-case mapping of the Unicode character
  database, a table of the engine. It is a parameter \<open>toLowerCase\<close> of the functions that
  call it, and every theorem about them holds for every such mapping.
  \<^verbatim>\<open>v.toLowerCase()\<close> on a value from JSON: only a string has the method.
\<close>

fun call_toLowerCase :: "(jsstring \<Rightarrow> jsstring) \<Rightarrow> json \<Rightarrow> thrown + jsstring" where
  "call_toLowerCase toLowerCase (JString s) = Inr (toLowerCase s)"
| "call_toLowerCase toLowerCase JNull = Inl (Error ''TypeError'')"
| "call_toLowerCase toLowerCase (JBool b) = Inl (Error ''TypeError'')"
| "call_toLowerCase toLowerCase (JNumber n) = Inl (Error ''TypeError'')"
| "call_toLowerCase toLowerCase (JArray items) = Inl (Error ''TypeError'')"
| "call_toLowerCase toLowerCase (JObject members) = Inl (Error ''TypeError'')"

text \<open>A \<^verbatim>\<open>ParsedMessage\<close>; its field \<^verbatim>\<open>text\<close> is \<open>message_text\<close> here. The interface
  declares \<^verbatim>\<open>speaker\<close> and \<^verbatim>\<open>text\<close> as strings; the JSON branch stores what the
  \<^verbatim>\<open>any\<close>-typed item holds, so the type of the two fields is a parameter.\<close>

record 'v ParsedMessage =
  speaker :: 'v
  message_text :: 'v
  isRep :: bool

text \<open>The callback of \<^verbatim>\<open>parsed.map\<close>, and the map itself, which stops at the first
  throw.\<close>

definition message_of_item :: "(jsstring \<Rightarrow> jsstring) \<Rightarrow> json \<Rightarrow> thrown + json ParsedMessage" where
  "message_of_item toLowerCase item =
     (case get_property item (js ''speaker_id'') of Inl e \<Rightarrow> Inl e | Inr speaker_id \<Rightarrow>
      case get_property item (js ''speaker'') of Inl e \<Rightarrow> Inl e | Inr speaker_prop \<Rightarrow>
      case get_property item (js ''text'') of Inl e \<Rightarrow> Inl e | Inr text_prop \<Rightarrow>
      case get_property item (js ''content'') of Inl e \<Rightarrow> Inl e | Inr content \<Rightarrow>
      case call_toLowerCase toLowerCase
             (or_default (logical_or speaker_id speaker_prop) (JString []))
      of Inl e \<Rightarrow> Inl e
       | Inr lowered \<Rightarrow>
           Inr \<lparr>speaker = or_default (logical_or speaker_id speaker_prop) (JString (js ''Unknown'')),
                message_text = or_default (logical_or text_prop content) (JString []),
                isRep = js_includes lowered (js ''rep'')\<rparr>)"

fun map_items :: "(jsstring \<Rightarrow> jsstring) \<Rightarrow> json list \<Rightarrow> thrown + json ParsedMessage list" where
  "map_items toLowerCase [] = Inr []"
| "map_items toLowerCase (item # items) =
     (case message_of_item toLowerCase item of
        Inl e \<Rightarrow> Inl e
      | Inr m \<Rightarrow> (case map_items toLowerCase items of
                    Inl e \<Rightarrow> Inl e
                  | Inr ms \<Rightarrow> Inr (m # ms)))"

text \<open>\<^verbatim>\<open>raw.split("\n")\<close>: the first argument is the current line, reversed.\<close>

fun split_from :: "jsstring \<Rightarrow> jsstring \<Rightarrow> jsstring list" where
  "split_from cur [] = [rev cur]"
| "split_from cur (c # s) =
     (if c = 0x000A then rev cur # split_from [] s else split_from (c # cur) s)"

definition split_newline :: "jsstring \<Rightarrow> jsstring list" where
  "split_newline raw = split_from [] raw"

text \<open>
  The regular expression \<^verbatim>\<open>/^(?:\[([^\]]+)\]|([^:]+):)\s*(.+)$/\<close>, matched with
  backtracking; it has no flag, so \<^verbatim>\<open>$\<close> is the end of the line, \<^verbatim>\<open>.\<close> is a code unit
  that is no line terminator, and a negated class is any other code unit.
  \<open>dot_plus_to_end\<close> is \<^verbatim>\<open>(.+)$\<close>; \<open>whitespace_then_rest\<close> is \<^verbatim>\<open>\s*(.+)$\<close>, where the
  greedy \<^verbatim>\<open>\s*\<close> gives a character back when the rest fails; both return the third
  group. \<open>bracket_tag\<close> and \<open>colon_tag\<close> are the two alternatives: they return the group
  and what follows the closing bracket (U+005D) or the colon (U+003A).
\<close>

definition dot_plus_to_end :: "jsstring \<Rightarrow> jsstring option" where
  "dot_plus_to_end s =
     (if s \<noteq> [] \<and> list_all (\<lambda>c. \<not> isLineTerminator c) s then Some s else None)"

fun whitespace_then_rest :: "jsstring \<Rightarrow> jsstring option" where
  "whitespace_then_rest [] = dot_plus_to_end []"
| "whitespace_then_rest (c # s) =
     (if js_white_space c
      then (case whitespace_then_rest s of
              Some g \<Rightarrow> Some g
            | None \<Rightarrow> dot_plus_to_end (c # s))
      else dot_plus_to_end (c # s))"

definition tag_until :: "code_unit \<Rightarrow> jsstring \<Rightarrow> (jsstring \<times> jsstring) option" where
  "tag_until stop s =
     (let g = takeWhile (\<lambda>c. c \<noteq> stop) s; r = dropWhile (\<lambda>c. c \<noteq> stop) s
      in if g \<noteq> [] \<and> r \<noteq> [] then Some (g, tl r) else None)"

definition bracket_tag :: "jsstring \<Rightarrow> (jsstring \<times> jsstring) option" where
  "bracket_tag line =
     (case line of
        [] \<Rightarrow> None
      | c # s \<Rightarrow> if c = 0x005B then tag_until 0x005D s else None)"

definition colon_tag :: "jsstring \<Rightarrow> (jsstring \<times> jsstring) option" where
  "colon_tag line = tag_until 0x003A line"

text \<open>The result of \<^verbatim>\<open>line.match\<close>: the groups 1, 2 and 3, or \<open>None\<close> for \<^verbatim>\<open>null\<close>.\<close>

definition line_match :: "jsstring \<Rightarrow> (jsstring option \<times> jsstring option \<times> jsstring) option" where
  "line_match line =
     (case (case bracket_tag line of
              Some (g1, r) \<Rightarrow> map_option (\<lambda>g3. (Some g1, None, g3)) (whitespace_then_rest r)
            | None \<Rightarrow> None) of
        Some m \<Rightarrow> Some m
      | None \<Rightarrow>
          (case colon_tag line of
             Some (g2, r) \<Rightarrow> map_option (\<lambda>g3. (None, Some g2, g3)) (whitespace_then_rest r)
           | None \<Rightarrow> None))"

text \<open>\<^verbatim>\<open>a || b\<close> for a group \<open>a\<close> (a string or \<^verbatim>\<open>undefined\<close>) and a string \<open>b\<close>.\<close>

definition string_or :: "jsstring option \<Rightarrow> jsstring \<Rightarrow> jsstring" where
  "string_or a b = (case a of Some s \<Rightarrow> if s \<noteq> [] then s else b | None \<Rightarrow> b)"

text \<open>\<^verbatim>\<open>messages[messages.length - 1].text += suffix\<close>: on an empty array the element is
  \<^verbatim>\<open>undefined\<close> and the property read throws.\<close>

definition append_to_last ::
  "jsstring ParsedMessage list \<Rightarrow> jsstring \<Rightarrow> thrown + jsstring ParsedMessage list" where
  "append_to_last messages suffix =
     (if messages = [] then Inl (Error ''TypeError'')
      else Inr (butlast messages @ [(last messages)\<lparr>message_text := message_text (last messages) @ suffix\<rparr>]))"

text \<open>One pass of the loop body, and the loop over the lines; \<open>messages\<close> is the array the
  loop fills.\<close>

definition tagged_message ::
  "(jsstring \<Rightarrow> jsstring) \<Rightarrow> jsstring option \<Rightarrow> jsstring option \<Rightarrow> jsstring
   \<Rightarrow> jsstring ParsedMessage" where
  "tagged_message toLowerCase m1 m2 m3 =
     (let speaker = js_trim (string_or m1 (string_or m2 []));
          remainder = js_trim (string_or (Some m3) []);
          isRep = (js_includes (toLowerCase speaker) (js ''rep'')
                   \<or> js_includes (toLowerCase speaker) (js ''sales''))
      in \<lparr>speaker = speaker, message_text = remainder, isRep = isRep\<rparr>)"

fun parse_lines ::
  "(jsstring \<Rightarrow> jsstring) \<Rightarrow> jsstring list \<Rightarrow> jsstring ParsedMessage list
   \<Rightarrow> thrown + jsstring ParsedMessage list" where
  "parse_lines toLowerCase [] messages = Inr messages"
| "parse_lines toLowerCase (line # lines) messages =
     (case line_match line of
        Some (m1, m2, m3) \<Rightarrow>
          parse_lines toLowerCase lines (messages @ [tagged_message toLowerCase m1 m2 m3])
      | None \<Rightarrow>
          if js_trim line \<noteq> [] then
            (if length messages > 0 then
               (case append_to_last messages (js '' '' @ js_trim line) of
                  Inl e \<Rightarrow> Inl e
                | Inr messages' \<Rightarrow> parse_lines toLowerCase lines messages')
             else parse_lines toLowerCase lines
                    (messages @ [\<lparr>speaker = js ''Unknown'', message_text = js_trim line,
                                  isRep = False\<rparr>]))
          else parse_lines toLowerCase lines messages)"

text \<open>\<^verbatim>\<open>raw.split("\n").filter((line) => line.trim())\<close>, the constant \<^verbatim>\<open>lines\<close>.\<close>

definition nonblank_lines :: "jsstring \<Rightarrow> jsstring list" where
  "nonblank_lines raw = filter (\<lambda>line. js_trim line \<noteq> []) (split_newline raw)"

definition as_json_message :: "jsstring ParsedMessage \<Rightarrow> json ParsedMessage" where
  "as_json_message m = \<lparr>speaker = JString (speaker m), message_text = JString (message_text m),
                         isRep = isRep m\<rparr>"

text \<open>
  \<^verbatim>\<open>parseTranscript\<close>. The argument \<open>parsed\<close> is the outcome of \<^verbatim>\<open>JSON.parse(raw)\<close>: \<open>None\<close>
  when it throws. A throw inside the \<^verbatim>\<open>try\<close> block, of \<^verbatim>\<open>JSON.parse\<close> or of the map,
  is caught, and the function goes on with the lines of the text.
\<close>

definition parseTranscript ::
  "(jsstring \<Rightarrow> jsstring) \<Rightarrow> json option \<Rightarrow> jsstring \<Rightarrow> thrown + json ParsedMessage list" where
  "parseTranscript toLowerCase parsed raw =
     (case (case parsed of
              Some (JArray items) \<Rightarrow>
                (case map_items toLowerCase items of Inr ms \<Rightarrow> Some ms | Inl e \<Rightarrow> None)
            | _ \<Rightarrow> None) of
        Some ms \<Rightarrow> Inr ms
      | None \<Rightarrow>
          (case parse_lines toLowerCase (nonblank_lines raw) [] of
             Inl e \<Rightarrow> Inl e
           | Inr ms \<Rightarrow> Inr (map as_json_message ms)))"

text \<open>
  The specification's side for \<^verbatim>\<open>parseTranscript\<close>. An element of a JSON array is plain
  when it is not \<^verbatim>\<open>null\<close> and its speaker (\<^verbatim>\<open>speaker_id\<close>, or else \<^verbatim>\<open>speaker\<close>), when
  truthy, is a string; a plain element gives one message, marked as the representative's
  when its speaker (the empty string when there is none), in lower case, contains "rep".
  Among the lines of a text, a line that the pattern matches opens a message, a first
  line that it does not match opens a message of the speaker "Unknown", and the lines up
  to the next matching line are appended to the text of the message, each after a space.
\<close>

definition speaker_value :: "json \<Rightarrow> json option" where
  "speaker_value item =
     (case item of
        JObject members \<Rightarrow>
          logical_or (map_of members (js ''speaker_id'')) (map_of members (js ''speaker''))
      | _ \<Rightarrow> None)"

definition text_value :: "json \<Rightarrow> json option" where
  "text_value item =
     (case item of
        JObject members \<Rightarrow>
          logical_or (map_of members (js ''text'')) (map_of members (js ''content''))
      | _ \<Rightarrow> None)"

definition plain_item :: "json \<Rightarrow> bool" where
  "plain_item item \<longleftrightarrow>
     item \<noteq> JNull \<and> (case speaker_value item of Some (JString s) \<Rightarrow> True | v \<Rightarrow> \<not> truthy v)"

definition speaker_string :: "json \<Rightarrow> jsstring" where
  "speaker_string item = (case speaker_value item of Some (JString s) \<Rightarrow> s | _ \<Rightarrow> [])"

definition item_message :: "(jsstring \<Rightarrow> jsstring) \<Rightarrow> json \<Rightarrow> json ParsedMessage" where
  "item_message toLowerCase item =
     \<lparr>speaker = or_default (speaker_value item) (JString (js ''Unknown'')),
      message_text = or_default (text_value item) (JString []),
      isRep = js_includes (toLowerCase (speaker_string item)) (js ''rep'')\<rparr>"

definition array_items :: "json option \<Rightarrow> json list option" where
  "array_items parsed = (case parsed of Some (JArray items) \<Rightarrow> Some items | _ \<Rightarrow> None)"

definition untagged :: "jsstring \<Rightarrow> bool" where
  "untagged line \<longleftrightarrow> line_match line = None"

definition opening_message :: "(jsstring \<Rightarrow> jsstring) \<Rightarrow> jsstring \<Rightarrow> jsstring ParsedMessage" where
  "opening_message toLowerCase line =
     (case line_match line of
        Some (m1, m2, m3) \<Rightarrow> tagged_message toLowerCase m1 m2 m3
      | None \<Rightarrow> \<lparr>speaker = js ''Unknown'', message_text = js_trim line, isRep = False\<rparr>)"

function grouped_messages ::
  "(jsstring \<Rightarrow> jsstring) \<Rightarrow> jsstring list \<Rightarrow> jsstring ParsedMessage list" where
  "grouped_messages toLowerCase [] = []"
| "grouped_messages toLowerCase (line # lines) =
     (opening_message toLowerCase line)
       \<lparr>message_text := message_text (opening_message toLowerCase line)
                          @ concat (map (\<lambda>u. js '' '' @ js_trim u) (takeWhile untagged lines))\<rparr>
     # grouped_messages toLowerCase (dropWhile untagged lines)"
  by pat_completeness auto
termination
  by (relation "measure (\<lambda>(toLowerCase, lines). length lines)")
     (auto simp add: less_Suc_eq_le length_dropWhile_le)

text \<open>The specification's side of the claim as it is written: a line has a speaker
  prefix when it begins with a bracketed name or with a name and a colon.\<close>

definition has_speaker_prefix :: "jsstring \<Rightarrow> bool" where
  "has_speaker_prefix line \<longleftrightarrow> bracket_tag line \<noteq> None \<or> colon_tag line \<noteq> None"

text \<open>The line has a speaker prefix and at least one character after it.\<close>

definition prefix_and_more :: "jsstring \<Rightarrow> bool" where
  "prefix_and_more line \<longleftrightarrow>
     (case bracket_tag line of Some (tag, r) \<Rightarrow> r \<noteq> [] | None \<Rightarrow> False)
     \<or> (case colon_tag line of Some (tag, r) \<Rightarrow> r \<noteq> [] | None \<Rightarrow> False)"

text \<open>A text in which the only line terminator is the line feed: it holds no CR, no
  LINE SEPARATOR and no PARAGRAPH SEPARATOR.\<close>

definition line_feeds_only :: "jsstring \<Rightarrow> bool" where
  "line_feeds_only raw \<longleftrightarrow> list_all (\<lambda>c. c \<notin> {0x000D, 0x2028, 0x2029}) raw"

text \<open>The lower-case mapping on ASCII letters, for the examples: it agrees with
  \<^verbatim>\<open>toLowerCase\<close> on every string of ASCII characters.\<close>

definition toLowerCase_ASCII :: "jsstring \<Rightarrow> jsstring" where
  "toLowerCase_ASCII s = map (\<lambda>c. if 0x0041 \<le> c \<and> c \<le> 0x005A then c + 0x0020 else c) s"

section \<open>The scoring request\<close>

text \<open>
  From \<^verbatim>\<open>UploadTranscriptDialog\<close> and the API client: the request type, the response type,
  and what \<^verbatim>\<open>JSON.stringify\<close> makes of a request as the body of \<^verbatim>\<open>POST /assess\<close>. A
  \<^verbatim>\<open>Record<string, string>\<close> lists its entries in the order they were set. The text of
  the file and the identifiers are JavaScript strings of code units.
\<close>

record AssessRequest =
  req_transcript :: jsstring
  req_metadata :: "(jsstring \<times> jsstring) list"

record AssessResponse =
  assessment_id :: int
  resp_scores :: AssessmentScores
  resp_coaching :: AssessmentCoaching

definition AssessRequest_json :: "AssessRequest \<Rightarrow> json" where
  "AssessRequest_json data =
     JObject [(js ''transcript'', JString (req_transcript data)),
              (js ''metadata'', JObject (map (\<lambda>(k, v). (k, JString v)) (req_metadata data)))]"

text \<open>
  What \<^verbatim>\<open>assessTranscript\<close> reads of the \<^verbatim>\<open>Response\<close> of \<^verbatim>\<open>fetch\<close>: \<^verbatim>\<open>ok\<close>,
  \<^verbatim>\<open>statusText\<close>, the result of \<^verbatim>\<open>text()\<close>, and the result of \<^verbatim>\<open>json()\<close>, which is \<open>None\<close>
  when the body is not JSON and the promise is rejected.
\<close>

record Response =
  ok :: bool
  statusText :: string
  body_text :: string
  body_json :: "json option"

text \<open>
  \<^verbatim>\<open>assessTranscript\<close>. The parameter \<open>apiFetch\<close> is the answer to
  \<^verbatim>\<open>apiFetch('/assess', {method: 'POST', body}, token)\<close> as a function of the body: a
  response, or what \<^verbatim>\<open>fetch\<close> throws. The token travels in a header and is no part of the
  body. The result of \<^verbatim>\<open>response.json()\<close> is returned as it is, whatever its shape. The
  second component lists the bodies sent.
\<close>

definition assessTranscript ::
  "(json \<Rightarrow> thrown + Response) \<Rightarrow> AssessRequest \<Rightarrow> (thrown + json) \<times> json list" where
  "assessTranscript apiFetch data =
     (case apiFetch (AssessRequest_json data) of
        Inl e \<Rightarrow> Inl e
      | Inr response \<Rightarrow>
          if \<not> ok response then
            Inl (Error (''Failed to assess transcript: ''
                        @ (if body_text response \<noteq> [] then body_text response
                           else statusText response)))
          else (case body_json response of
                  None \<Rightarrow> Inl (Error ''SyntaxError'')
                | Some result \<Rightarrow> Inr result),
      [AssessRequest_json data])"

datatype UploadState = state_idle | state_uploading | state_success | state_error

text \<open>The state of the dialog. The selected \<^verbatim>\<open>File\<close> is its text; \<open>None\<close> is \<^verbatim>\<open>null\<close>. The
  state \<^verbatim>\<open>assessmentResult\<close> is declared \<^verbatim>\<open>AssessResponse | null\<close> and holds what
  \<^verbatim>\<open>assessTranscript\<close> returned.\<close>

record UploadTranscriptDialog =
  upload_state :: UploadState
  upload_error :: "string option"
  upload_file :: "jsstring option"
  buyerId :: jsstring
  assessmentResult :: "json option"

text \<open>The constant \<^verbatim>\<open>metadata\<close> of \<^verbatim>\<open>handleSubmit\<close>: the representative, and the buyer
  when the field is not blank.\<close>

definition upload_metadata :: "jsstring \<Rightarrow> jsstring \<Rightarrow> (jsstring \<times> jsstring) list" where
  "upload_metadata representativeId buyer =
     (js ''representative_id'', representativeId)
     # (if js_trim buyer \<noteq> [] then [(js ''buyer_id'', js_trim buyer)] else [])"

text \<open>The constant \<^verbatim>\<open>data\<close> of \<^verbatim>\<open>handleSubmit\<close>, for a file of text \<open>t\<close>.\<close>

definition submitted_request :: "jsstring \<Rightarrow> jsstring \<Rightarrow> UploadTranscriptDialog \<Rightarrow> AssessRequest" where
  "submitted_request representativeId t d =
     \<lparr>req_transcript = t, req_metadata = upload_metadata representativeId (buyerId d)\<rparr>"

text \<open>\<^verbatim>\<open>handleSubmit\<close>. The second component of the result lists the bodies sent.\<close>

definition handleSubmit ::
  "(json \<Rightarrow> thrown + Response) \<Rightarrow> string option \<Rightarrow> jsstring
   \<Rightarrow> UploadTranscriptDialog \<Rightarrow> UploadTranscriptDialog \<times> json list" where
  "handleSubmit apiFetch accessToken representativeId d =
     (case upload_file d of
        None \<Rightarrow> (d\<lparr>upload_error := Some ''Please select a file to upload''\<rparr>, [])
      | Some transcript_text \<Rightarrow>
          if \<not> truthy_string accessToken then
            (d\<lparr>upload_error := Some ''You must be signed in to upload transcripts''\<rparr>, [])
          else if js_trim transcript_text = [] then
            (d\<lparr>upload_state := state_error, upload_error := Some ''File is empty''\<rparr>, [])
          else
            (let data = \<lparr>req_transcript = transcript_text,
                         req_metadata = upload_metadata representativeId (buyerId d)\<rparr>
             in case assessTranscript apiFetch data of
                  (Inr result, sent) \<Rightarrow>
                    (d\<lparr>upload_error := None, assessmentResult := Some result,
                       upload_state := state_success\<rparr>, sent)
                | (Inl e, sent) \<Rightarrow>
                    (d\<lparr>upload_state := state_error,
                       upload_error := Some (error_message e ''Failed to assess transcript'')\<rparr>,
                     sent)))"

text \<open>
  Modelled from the spec: the AssessmentService behind \<^verbatim>\<open>POST /assess\<close> is not among the
  sources. Section 6: a successful call returns
  \<^verbatim>\<open>{assessment_id, scores: map<dimension,int>, coaching: {...}}\<close>, where the coaching is
  an "object with \<^verbatim>\<open>summary: string\<close>, \<^verbatim>\<open>wins: [string]\<close>, \<^verbatim>\<open>gaps: [string]\<close>,
  \<^verbatim>\<open>next_actions: [string]\<close>" and the dimensions are the seven of section 3; the example
  response of the README has the same members. \<open>AssessResponse_json\<close> is that object for
  a response of the client's type \<^verbatim>\<open>AssessResponse\<close>, and \<open>successful_reply\<close> is the HTTP
  response that carries it.
\<close>

definition AssessmentScores_json :: "AssessmentScores \<Rightarrow> json" where
  "AssessmentScores_json s =
     JObject [(js ''situation'', JNumber (real_of_int (situation s))),
              (js ''problem'', JNumber (real_of_int (problem s))),
              (js ''implication'', JNumber (real_of_int (implication s))),
              (js ''need_payoff'', JNumber (real_of_int (need_payoff s))),
              (js ''flow'', JNumber (real_of_int (flow s))),
              (js ''tone'', JNumber (real_of_int (tone s))),
              (js ''engagement'', JNumber (real_of_int (engagement s)))]"

definition AssessmentCoaching_json :: "AssessmentCoaching \<Rightarrow> json" where
  "AssessmentCoaching_json c =
     JObject [(js ''summary'', JString (js (summary c))),
              (js ''wins'', JArray (map (\<lambda>w. JString (js w)) (wins c))),
              (js ''gaps'', JArray (map (\<lambda>g. JString (js g)) (gaps c))),
              (js ''next_actions'', JArray (map (\<lambda>a. JString (js a)) (next_actions c)))]"

definition AssessResponse_json :: "AssessResponse \<Rightarrow> json" where
  "AssessResponse_json r =
     JObject [(js ''assessment_id'', JNumber (real_of_int (assessment_id r))),
              (js ''scores'', AssessmentScores_json (resp_scores r)),
              (js ''coaching'', AssessmentCoaching_json (resp_coaching r))]"

definition successful_reply :: "AssessResponse \<Rightarrow> Response" where
  "successful_reply r =
     \<lparr>ok = True, statusText = ''OK'', body_text = [], body_json = Some (AssessResponse_json r)\<rparr>"

text \<open>Shapes of JSON objects: the names of the members, a member, a string, a map from
  strings to strings, a map from the dimension names to integers.\<close>

definition member_names :: "json \<Rightarrow> jsstring list" where
  "member_names j = (case j of JObject members \<Rightarrow> map fst members | _ \<Rightarrow> [])"

definition has_fields :: "json \<Rightarrow> jsstring list \<Rightarrow> bool" where
  "has_fields j names =
     (case j of
        JObject members \<Rightarrow> distinct (map fst members) \<and> set (map fst members) = set names
      | _ \<Rightarrow> False)"

definition member_value :: "json \<Rightarrow> jsstring \<Rightarrow> json option" where
  "member_value j name = (case j of JObject members \<Rightarrow> map_of members name | _ \<Rightarrow> None)"

definition is_string :: "json option \<Rightarrow> bool" where
  "is_string v = (case v of Some (JString s) \<Rightarrow> True | _ \<Rightarrow> False)"

definition is_string_map :: "json option \<Rightarrow> bool" where
  "is_string_map v =
     (case v of
        Some (JObject members) \<Rightarrow> list_all (\<lambda>(k, x). is_string (Some x)) members
      | _ \<Rightarrow> False)"

definition is_integer :: "json \<Rightarrow> bool" where
  "is_integer v = (case v of JNumber x \<Rightarrow> real_of_int \<lfloor>x\<rfloor> = x | _ \<Rightarrow> False)"

definition dimension_names :: "jsstring list" where
  "dimension_names =
     [js ''situation'', js ''problem'', js ''implication'', js ''need_payoff'', js ''flow'',
      js ''tone'', js ''engagement'']"

definition is_dimension_map :: "json option \<Rightarrow> bool" where
  "is_dimension_map v =
     (case v of
        Some (JObject members) \<Rightarrow>
          list_all (\<lambda>(k, x). k \<in> set dimension_names \<and> is_integer x) members
      | _ \<Rightarrow> False)"

text \<open>The specification's side: the request and the response of the contract of
  section 6, and the shape of the body the dialog sends.\<close>

definition scoring_request_contract :: "json \<Rightarrow> bool" where
  "scoring_request_contract j \<longleftrightarrow>
     has_fields j [js ''transcript_text'', js ''tenant_id'', js ''metadata'']
     \<and> is_string (member_value j (js ''transcript_text''))
     \<and> is_string (member_value j (js ''tenant_id''))
     \<and> is_string_map (member_value j (js ''metadata''))"

definition scoring_response_contract :: "json \<Rightarrow> bool" where
  "scoring_response_contract j \<longleftrightarrow>
     has_fields j [js ''assessment_id'', js ''scores'', js ''coaching'']
     \<and> is_dimension_map (member_value j (js ''scores''))"

definition sent_request_shape :: "json \<Rightarrow> bool" where
  "sent_request_shape j \<longleftrightarrow>
     has_fields j [js ''transcript'', js ''metadata'']
     \<and> is_string (member_value j (js ''transcript''))
     \<and> is_string_map (member_value j (js ''metadata''))"

section \<open>Linear correlation\<close>

text \<open>
  Modelled from the spec: the metrics engine is not among the sources. Section 4.5: the
  metric is the "standard Pearson correlation coefficient; defined as 0 (not NaN) when
  one of the two arrays has zero variance"; the functions are "defined for any non-empty
  equal-length input pair" and "must reject (not silently coerce) mismatched-length or
  empty inputs with a MetricInputError". The inputs are arrays of integer scores. A
  quotient with divisor 0 is \<open>NaN\<close>.
\<close>

datatype metric_error = MetricInputError

datatype metric_value = Number real | NaN

definition quotient_or_NaN :: "real \<Rightarrow> real \<Rightarrow> metric_value" where
  "quotient_or_NaN a b = (if b = 0 then NaN else Number (a / b))"

definition squared_deviations :: "int list \<Rightarrow> real" where
  "squared_deviations xs =
     sum_list (map (\<lambda>x. (real_of_int x - arithmetic_mean xs)\<^sup>2) xs)"

definition variance :: "int list \<Rightarrow> real" where
  "variance xs = squared_deviations xs / real (length xs)"

definition co_deviations :: "int list \<Rightarrow> int list \<Rightarrow> real" where
  "co_deviations xs ys =
     sum_list (map (\<lambda>(x, y). (real_of_int x - arithmetic_mean xs)
                              * (real_of_int y - arithmetic_mean ys)) (zip xs ys))"

definition pearson_r :: "int list \<Rightarrow> int list \<Rightarrow> metric_error + metric_value" where
  "pearson_r predictions ground_truths =
     (if length predictions \<noteq> length ground_truths \<or> predictions = []
      then Inl MetricInputError
      else if variance predictions = 0 \<or> variance ground_truths = 0 then Inr (Number 0)
      else Inr (quotient_or_NaN (co_deviations predictions ground_truths)
                       (sqrt (squared_deviations predictions
                              * squared_deviations ground_truths))))"

text \<open>The same quotient without the guard, to compare with.\<close>

definition pearson_r_unguarded :: "int list \<Rightarrow> int list \<Rightarrow> metric_error + metric_value" where
  "pearson_r_unguarded predictions ground_truths =
     (if length predictions \<noteq> length ground_truths \<or> predictions = []
      then Inl MetricInputError
      else Inr (quotient_or_NaN (co_deviations predictions ground_truths)
                       (sqrt (squared_deviations predictions
                              * squared_deviations ground_truths))))"

section \<open>The evaluation run report\<close>

text \<open>
  Modelled from the spec: the evaluation runner and the report it writes are not among
  the sources; the API client declares only the stored run record (the interface
  \<^verbatim>\<open>EvaluationRun\<close>), which is another object. Section 4.6: every example is scored once;
  "a scoring or validation failure for one example excludes it from metric computation
  for that example's dimensions but does not abort the run; the run record tracks the
  count of failed examples distinctly from successful ones"; then the runner is to "call
  MetricsEngine per dimension over the successful pairs and compute macro averages".
  Section 4.5: the per-dimension metrics are "the three statistics computed
  independently per dimension", the macro averages the "simple arithmetic mean of each
  statistic across all dimensions", and the statistics reject an empty input with a
  \<^verbatim>\<open>MetricInputError\<close>; section 7: the runner never swallows an error. Section 8:
  \<^verbatim>\<open>n_failed\<close> counts the failed examples and \<^verbatim>\<open>n_samples\<close> the successfully scored ones.
  Section 6: the report is \<^verbatim>\<open>{model_name, prompt_version, n_samples, n_failed,
  per_dimension_metrics: map<dimension, {pearson_r, qwk, band_accuracy}>,
  macro_averages: {pearson_r, qwk, band_accuracy}, runtime_seconds}\<close>.

  The scoring primitive, the three statistics and the measured duration are parameters;
  a statistic answers with a number or with the \<^verbatim>\<open>MetricInputError\<close> above.

  The example of a report in \<^verbatim>\<open>backend/docs/EVALUATION.md\<close> differs from section 6 in
  its names: it calls the third metric \<^verbatim>\<open>plus_minus_one_accuracy\<close>, has a \<^verbatim>\<open>timestamp\<close>
  and shows neither \<^verbatim>\<open>n_failed\<close> nor \<^verbatim>\<open>runtime_seconds\<close>. The model follows section 6.
\<close>

record Metrics =
  m_pearson_r :: real
  m_qwk :: real
  m_band_accuracy :: real

record EvaluationReport =
  report_model_name :: string
  report_prompt_version :: string
  n_samples :: nat
  n_failed :: nat
  per_dimension_metrics :: "(jsstring \<times> Metrics) list"
  macro_averages :: Metrics
  runtime_seconds :: real

record EvaluationExample =
  example_transcript_text :: jsstring
  ground_truth :: AssessmentScores

record MetricsEngine =
  linear_correlation :: "int list \<Rightarrow> int list \<Rightarrow> metric_error + real"
  ordinal_weighted_agreement :: "int list \<Rightarrow> int list \<Rightarrow> metric_error + real"
  tolerance_band_accuracy :: "int list \<Rightarrow> int list \<Rightarrow> metric_error + real"

text \<open>Modelled from the spec: the declared dimensions (section 3), each with its score in
  an assessment.\<close>

definition dimensions :: "(jsstring \<times> (AssessmentScores \<Rightarrow> int)) list" where
  "dimensions =
     [(js ''situation'', situation), (js ''problem'', problem),
      (js ''implication'', implication), (js ''need_payoff'', need_payoff),
      (js ''flow'', flow), (js ''tone'', tone), (js ''engagement'', engagement)]"

text \<open>Modelled from the spec: the successful pairs of a run (section 4.6, steps 2 and 3),
  the prediction and the ground truth of every example whose scoring did not fail, in the
  order of the dataset; and the examples whose scoring failed.\<close>

definition successful_pairs ::
  "(jsstring \<Rightarrow> thrown + AssessmentScores) \<Rightarrow> EvaluationExample list
   \<Rightarrow> (AssessmentScores \<times> AssessmentScores) list" where
  "successful_pairs score dataset =
     concat (map (\<lambda>e. case score (example_transcript_text e) of
                         Inr prediction \<Rightarrow> [(prediction, ground_truth e)]
                       | Inl failure \<Rightarrow> [])
                 dataset)"

definition failed_examples ::
  "(jsstring \<Rightarrow> thrown + AssessmentScores) \<Rightarrow> EvaluationExample list \<Rightarrow> EvaluationExample list" where
  "failed_examples score dataset =
     filter (\<lambda>e. case score (example_transcript_text e) of Inr prediction \<Rightarrow> False
                 | Inl failure \<Rightarrow> True)
            dataset"

text \<open>Modelled from the spec: the three statistics of one dimension over the successful
  pairs, the same for every dimension, and the mean of each statistic across the
  dimensions (section 4.6, step 4, and section 4.5).\<close>

definition dimension_metrics ::
  "MetricsEngine \<Rightarrow> (AssessmentScores \<times> AssessmentScores) list \<Rightarrow> (AssessmentScores \<Rightarrow> int)
   \<Rightarrow> metric_error + Metrics" where
  "dimension_metrics engine pairs dimension =
     (let predictions = map (\<lambda>(p, g). dimension p) pairs;
          truths = map (\<lambda>(p, g). dimension g) pairs
      in case linear_correlation engine predictions truths of
           Inl e \<Rightarrow> Inl e
         | Inr r \<Rightarrow>
             (case ordinal_weighted_agreement engine predictions truths of
                Inl e \<Rightarrow> Inl e
              | Inr k \<Rightarrow>
                  (case tolerance_band_accuracy engine predictions truths of
                     Inl e \<Rightarrow> Inl e
                   | Inr b \<Rightarrow> Inr \<lparr>m_pearson_r = r, m_qwk = k, m_band_accuracy = b\<rparr>)))"

fun all_dimension_metrics ::
  "MetricsEngine \<Rightarrow> (AssessmentScores \<times> AssessmentScores) list
   \<Rightarrow> (jsstring \<times> (AssessmentScores \<Rightarrow> int)) list
   \<Rightarrow> metric_error + (jsstring \<times> Metrics) list" where
  "all_dimension_metrics engine pairs [] = Inr []"
| "all_dimension_metrics engine pairs ((name, dimension) # rest) =
     (case dimension_metrics engine pairs dimension of
        Inl e \<Rightarrow> Inl e
      | Inr m \<Rightarrow>
          (case all_dimension_metrics engine pairs rest of
             Inl e \<Rightarrow> Inl e
           | Inr ms \<Rightarrow> Inr ((name, m) # ms)))"

definition mean_of :: "real list \<Rightarrow> real" where
  "mean_of xs = sum_list xs / real (length xs)"

definition compute_macro_averages :: "(jsstring \<times> Metrics) list \<Rightarrow> Metrics" where
  "compute_macro_averages ms =
     \<lparr>m_pearson_r = mean_of (map (\<lambda>(name, m). m_pearson_r m) ms),
      m_qwk = mean_of (map (\<lambda>(name, m). m_qwk m) ms),
      m_band_accuracy = mean_of (map (\<lambda>(name, m). m_band_accuracy m) ms)\<rparr>"

text \<open>Modelled from the spec: the run, up to its report, and the report as the object of
  section 6. \<open>score\<close> is the scoring primitive for the pinned prompt version and the
  model, \<open>seconds\<close> the measured duration.\<close>

definition run_evaluation ::
  "MetricsEngine \<Rightarrow> (jsstring \<Rightarrow> thrown + AssessmentScores) \<Rightarrow> string \<Rightarrow> string \<Rightarrow> real
   \<Rightarrow> EvaluationExample list \<Rightarrow> metric_error + EvaluationReport" where
  "run_evaluation engine score model version seconds dataset =
     (case all_dimension_metrics engine (successful_pairs score dataset) dimensions of
        Inl e \<Rightarrow> Inl e
      | Inr ms \<Rightarrow>
          Inr \<lparr>report_model_name = model, report_prompt_version = version,
               n_samples = length (successful_pairs score dataset),
               n_failed = length (failed_examples score dataset),
               per_dimension_metrics = ms,
               macro_averages = compute_macro_averages ms,
               runtime_seconds = seconds\<rparr>)"

definition Metrics_json :: "Metrics \<Rightarrow> json" where
  "Metrics_json m =
     JObject [(js ''pearson_r'', JNumber (m_pearson_r m)),
              (js ''qwk'', JNumber (m_qwk m)),
              (js ''band_accuracy'', JNumber (m_band_accuracy m))]"

definition EvaluationReport_json :: "EvaluationReport \<Rightarrow> json" where
  "EvaluationReport_json report =
     JObject [(js ''model_name'', JString (js (report_model_name report))),
              (js ''prompt_version'', JString (js (report_prompt_version report))),
              (js ''n_samples'', JNumber (real (n_samples report))),
              (js ''n_failed'', JNumber (real (n_failed report))),
              (js ''per_dimension_metrics'',
                 JObject (map (\<lambda>(dimension, m). (dimension, Metrics_json m))
                              (per_dimension_metrics report))),
              (js ''macro_averages'', Metrics_json (macro_averages report)),
              (js ''runtime_seconds'', JNumber (runtime_seconds report))]"

text \<open>The specification's side: the report of section 6. Every entry of
  \<^verbatim>\<open>per_dimension_metrics\<close>, and \<^verbatim>\<open>macro_averages\<close>, is an object of the three metrics.\<close>

definition metrics_triple :: "json option \<Rightarrow> bool" where
  "metrics_triple v =
     (case v of
        Some j \<Rightarrow> has_fields j [js ''pearson_r'', js ''qwk'', js ''band_accuracy'']
      | None \<Rightarrow> False)"

definition evaluation_run_report_contract :: "json \<Rightarrow> bool" where
  "evaluation_run_report_contract j \<longleftrightarrow>
     has_fields j [js ''model_name'', js ''prompt_version'', js ''n_samples'', js ''n_failed'',
                   js ''per_dimension_metrics'', js ''macro_averages'', js ''runtime_seconds'']
     \<and> (case member_value j (js ''per_dimension_metrics'') of
           Some (JObject entries) \<Rightarrow> list_all (\<lambda>(dimension, m). metrics_triple (Some m)) entries
         | _ \<Rightarrow> False)
     \<and> metrics_triple (member_value j (js ''macro_averages''))"

section \<open>Example data\<close>

definition example_representative :: Representative where
  "example_representative =
     \<lparr>rep_id = ''rep-1'', email = ''ana@example.com'', full_name = ''Ana Diaz'',
      department = None, rep_is_active = True, hire_date = None,
      rep_created_at = ''2025-01-01T00:00:00Z''\<rparr>"

definition example_transcript :: Transcript where
  "example_transcript =
     \<lparr>t_id = 7, representative_id = Some ''rep-1'', buyer_id = None,
      transcript = ''Rep: Hi. Buyer: Hello.'', t_created_at = ''2025-01-02T00:00:00Z''\<rparr>"

definition low_scores :: AssessmentScores where
  "low_scores =
     \<lparr>situation = 2, problem = 2, implication = 2, need_payoff = 2,
      flow = 3, tone = 3, engagement = 3\<rparr>"

definition example_assessment :: "int \<Rightarrow> string \<Rightarrow> Assessment" where
  "example_assessment n created =
     \<lparr>a_id = n, transcript_id = 7, scores = low_scores,
      coaching = \<lparr>summary = ''ok'', wins = [], gaps = [], next_actions = []\<rparr>,
      model_name = ''gpt-4o-mini'', prompt_version = ''spin_v1'', latency_ms = None,
      created_at = created\<rparr>"

definition first_assessment :: Assessment where
  "first_assessment = example_assessment 1 ''2025-01-03T00:00:00Z''"

definition second_assessment :: Assessment where
  "second_assessment = example_assessment 2 ''2025-01-04T00:00:00Z''"

text \<open>The instants of the two dates above, in milliseconds since the epoch.\<close>

definition example_getTime :: "string \<Rightarrow> int option" where
  "example_getTime =
     map_of [(''2025-01-03T00:00:00Z'', 1735862400000), (''2025-01-04T00:00:00Z'', 1735948800000)]"

definition example_template :: "string \<Rightarrow> bool \<Rightarrow> PromptTemplate" where
  "example_template tid active =
     \<lparr>pt_id = tid, organization_id = ''org-1'', pt_name = ''SPIN'', pt_version = ''v1'',
      pt_system_prompt = ''You are a sales coach.'', pt_user_template = ''Score: {transcript}'',
      is_active = active, pt_created_at = ''2025-01-01T00:00:00Z'',
      pt_updated_at = ''2025-01-01T00:00:00Z''\<rparr>"

definition three_templates :: "PromptTemplate list" where
  "three_templates =
     [example_template ''t1'' False, example_template ''t2'' True, example_template ''t3'' False]"

definition three_inactive_templates :: "PromptTemplate list" where
  "three_inactive_templates =
     [example_template ''t1'' False, example_template ''t2'' False, example_template ''t3'' False]"

definition example_editor :: TemplateEditor where
  "example_editor =
     \<lparr>ed_name = ''Custom Template'', ed_version = ''v1'',
      systemPrompt = ''You are a sales coach.'', userTemplate = ''Score this call'',
      isLoading = False, ed_error = None, ed_open = True, ed_template = None\<rparr>"

definition example_dataset :: EvaluationDataset where
  "example_dataset =
     \<lparr>ds_id = ''d1'', ds_organization_id = ''org-1'', ds_name = ''Gold set'',
      ds_description = None, ds_source_type = csv, ds_source_path = Some ''gold.csv'',
      num_examples = 3, langsmith_dataset_name = None, langsmith_dataset_id = None,
      ds_created_at = ''2025-01-01T00:00:00Z'', ds_updated_at = ''2025-01-01T00:00:00Z''\<rparr>"

definition example_response :: AssessResponse where
  "example_response =
     \<lparr>assessment_id = 1, resp_scores = scenario_scores,
      resp_coaching = \<lparr>summary = ''ok'', wins = [], gaps = [], next_actions = []\<rparr>\<rparr>"

definition example_response_body :: json where
  "example_response_body =
     JObject [(js ''assessment_id'', JNumber 1),
              (js ''scores'',
                 JObject [(js ''situation'', JNumber 4), (js ''problem'', JNumber 3),
                          (js ''implication'', JNumber 4), (js ''need_payoff'', JNumber 3),
                          (js ''flow'', JNumber 4), (js ''tone'', JNumber 4),
                          (js ''engagement'', JNumber 3)]),
              (js ''coaching'',
                 JObject [(js ''summary'', JString (js ''ok'')), (js ''wins'', JArray []),
                          (js ''gaps'', JArray []), (js ''next_actions'', JArray [])])]"

text \<open>A structured transcript of two elements, as \<^verbatim>\<open>JSON.parse\<close> returns it.\<close>

definition example_array :: json where
  "example_array =
     JArray [JObject [(js ''speaker'', JString (js ''Sales Rep'')),
                      (js ''text'', JString (js ''Hello''))],
             JObject [(js ''speaker_id'', JString (js ''buyer-1'')),
                      (js ''content'', JString (js ''Hi''))]]"

definition example_upload :: UploadTranscriptDialog where
  "example_upload =
     \<lparr>upload_state = state_idle, upload_error = None,
      upload_file = Some (js ''Rep: Hi. Buyer: Hello.''), buyerId = js ''acme'',
      assessmentResult = None\<rparr>"

definition example_body :: json where
  "example_body =
     JObject [(js ''transcript'', JString (js ''Rep: Hi. Buyer: Hello.'')),
              (js ''metadata'', JObject [(js ''representative_id'', JString (js ''rep-1'')),
                                         (js ''buyer_id'', JString (js ''acme''))])]"

text \<open>A service that answers every request with the example response.\<close>

definition example_service :: "json \<Rightarrow> thrown + Response" where
  "example_service body = Inr (successful_reply example_response)"

text \<open>
  An evaluation of two examples, the second of which fails to score. The engine of the
  example rejects empty and mismatched input and otherwise answers 1 for the two
  agreement statistics and the fraction of pairs within 1 for the band.
\<close>

definition example_engine :: MetricsEngine where
  "example_engine =
     \<lparr>linear_correlation =
        (\<lambda>xs ys. if xs = [] \<or> length xs \<noteq> length ys then Inl MetricInputError else Inr 1),
      ordinal_weighted_agreement =
        (\<lambda>xs ys. if xs = [] \<or> length xs \<noteq> length ys then Inl MetricInputError else Inr 1),
      tolerance_band_accuracy =
        (\<lambda>xs ys. if xs = [] \<or> length xs \<noteq> length ys then Inl MetricInputError
                  else Inr (real (length (filter (\<lambda>(p, g). \<bar>p - g\<bar> \<le> 1) (zip xs ys)))
                            / real (length xs)))\<rparr>"

definition example_gold_set :: "EvaluationExample list" where
  "example_gold_set =
     [\<lparr>example_transcript_text = js ''Rep: Hi there'', ground_truth = scenario_scores\<rparr>,
      \<lparr>example_transcript_text = js ''Rep: Bye'', ground_truth = low_scores\<rparr>]"

definition example_score :: "jsstring \<Rightarrow> thrown + AssessmentScores" where
  "example_score t =
     (if t = js ''Rep: Hi there'' then Inr scenario_scores else Inl (Error ''GatewayError''))"

definition example_metrics :: Metrics where
  "example_metrics = \<lparr>m_pearson_r = 1, m_qwk = 1, m_band_accuracy = 1\<rparr>"

definition example_report :: EvaluationReport where
  "example_report =
     \<lparr>report_model_name = ''gpt-4o-mini'', report_prompt_version = ''spin_v1'',
      n_samples = 1, n_failed = 1,
      per_dimension_metrics =
        [(js ''situation'', example_metrics), (js ''problem'', example_metrics),
         (js ''implication'', example_metrics), (js ''need_payoff'', example_metrics),
         (js ''flow'', example_metrics), (js ''tone'', example_metrics),
         (js ''engagement'', example_metrics)],
      macro_averages = example_metrics,
      runtime_seconds = 2\<rparr>"

section \<open>Theorems\<close>

text \<open>
  C1. The composite SPIN score is the arithmetic mean of the seven dimension scores, in
  each place the front end computes it; for the scores 4, 3, 4, 3, 4, 4, 3 of the
  end-to-end scenario it is 25/7.
\<close>

theorem composite_is_mean_of_seven:
  "calculateCompositeScore s = arithmetic_mean (seven_dimension_scores s)
   \<and> calculateAverageScore s = arithmetic_mean (seven_dimension_scores s)
   \<and> length (seven_dimension_scores s) = 7
   \<and> calculateCompositeScore scenario_scores = 25 / 7"
  by (simp add: calculateCompositeScore_def calculateAverageScore_def arithmetic_mean_def
      seven_dimension_scores_def scenario_scores_def)

subsection \<open>Queue count\<close>

lemma composite_mean:
  "calculateCompositeScore s = arithmetic_mean (seven_dimension_scores s)"
  by (simp add: calculateCompositeScore_def arithmetic_mean_def seven_dimension_scores_def)

lemma list_ex_repTranscripts:
  "list_ex (\<lambda>t. t_id t = transcript_id a) (repTranscripts rep ts) = attached_to rep ts a"
  by (auto simp add: list_ex_iff repTranscripts_def attached_to_def)

text \<open>
  C9. The queue count of a representative is the number of assessments attached to the
  representative's transcripts whose composite score, the mean of the seven scores, is
  below 3. The count runs over the assessments, so two assessments of one transcript
  count twice.
\<close>

theorem queueCount_counts_assessments:
  "queueCount rep transcripts assessments =
     length (filter (\<lambda>a. attached_to rep transcripts a
                          \<and> arithmetic_mean (seven_dimension_scores (scores a)) < 3)
                    assessments)"
  by (simp add: queueCount_def repAssessments_def list_ex_repTranscripts composite_mean
      QUEUE_THRESHOLD_def conj_commute)

theorem queueCount_counts_assessments_witness:
  "queueCount example_representative [example_transcript]
     [first_assessment, second_assessment] = 2"
  using queueCount_counts_assessments
    [of example_representative "[example_transcript]" "[first_assessment, second_assessment]"]
  by (simp add: attached_to_def example_representative_def example_transcript_def
      first_assessment_def second_assessment_def example_assessment_def low_scores_def
      arithmetic_mean_def seven_dimension_scores_def)

subsection \<open>Latest assessment\<close>

lemma set_insert_sorted: "set (insert_sorted c x ys) = insert x (set ys)"
  by (induction ys) auto

lemma set_array_sort: "set (array_sort c xs) = set xs"
  by (induction xs) (simp_all add: array_sort_def set_insert_sorted)

lemma SortCompare_created_at:
  assumes "getTime (created_at a) = Some ta" and "getTime (created_at b) = Some tb"
  shows "SortCompare (by_created_at_descending getTime) a b = tb - ta"
  using assms by (simp add: SortCompare_def by_created_at_descending_def)

lemma newest_first_insert:
  assumes "newest_first getTime ys"
    and "\<forall>a \<in> insert x (set ys). getTime (created_at a) \<noteq> None"
  shows "newest_first getTime (insert_sorted (by_created_at_descending getTime) x ys)"
  using assms
proof (induction ys)
  case Nil
  then show ?case by (simp add: newest_first_def)
next
  case (Cons y ys)
  from Cons.prems obtain tx ty where tx: "getTime (created_at x) = Some tx"
    and ty: "getTime (created_at y) = Some ty" by auto
  have cmp: "SortCompare (by_created_at_descending getTime) x y = ty - tx"
    by (rule SortCompare_created_at [OF tx ty])
  show ?case
  proof (cases "ty - tx \<le> 0")
    case True
    with Cons.prems cmp tx ty show ?thesis
      by (auto simp add: newest_first_def)
  next
    case False
    have tail: "newest_first getTime (insert_sorted (by_created_at_descending getTime) x ys)"
      using Cons.IH Cons.prems by (simp add: newest_first_def)
    with False Cons.prems cmp tx ty show ?thesis
      by (auto simp add: newest_first_def set_insert_sorted)
  qed
qed

lemma newest_first_array_sort:
  assumes "\<forall>a \<in> set xs. getTime (created_at a) \<noteq> None"
  shows "newest_first getTime (array_sort (by_created_at_descending getTime) xs)"
  using assms
proof (induction xs)
  case Nil
  then show ?case by (simp add: array_sort_def newest_first_def)
next
  case (Cons x xs)
  then have "newest_first getTime (array_sort (by_created_at_descending getTime) xs)" by simp
  then have "newest_first getTime
      (insert_sorted (by_created_at_descending getTime) x
         (array_sort (by_created_at_descending getTime) xs))"
    using Cons.prems by (intro newest_first_insert) (simp_all add: set_array_sort)
  then show ?case by (simp add: array_sort_def)
qed

text \<open>
  C8. When the transcript has at least one assessment and every \<^verbatim>\<open>created_at\<close> is a date,
  the page selects one of the assessments, and no assessment of the transcript has a
  later \<^verbatim>\<open>created_at\<close> than the selected one.
\<close>

theorem latest_assessment_is_maximal:
  assumes "assessments \<noteq> []"
    and "\<forall>a \<in> set assessments. getTime (created_at a) \<noteq> None"
  shows "\<exists>latest. latest_assessment getTime assessments = Some latest
           \<and> latest \<in> set assessments
           \<and> (\<forall>a \<in> set assessments.
                 the (getTime (created_at a)) \<le> the (getTime (created_at latest)))"
proof -
  let ?sorted = "array_sort (by_created_at_descending getTime) assessments"
  have mem: "set ?sorted = set assessments" by (rule set_array_sort)
  with assms(1) obtain first rest where sorted: "?sorted = first # rest"
    by (cases ?sorted) auto
  have "newest_first getTime (first # rest)"
    using newest_first_array_sort [OF assms(2)] sorted by simp
  then have "\<forall>a \<in> set (first # rest).
      the (getTime (created_at a)) \<le> the (getTime (created_at first))"
    by (auto simp add: newest_first_def)
  moreover have "first \<in> set assessments" using mem sorted by auto
  moreover have "latest_assessment getTime assessments = Some first"
    using assms(1) sorted by (simp add: latest_assessment_def)
  ultimately show ?thesis using mem sorted by auto
qed

theorem latest_assessment_is_maximal_witness:
  "[first_assessment, second_assessment] \<noteq> []
   \<and> example_getTime (created_at first_assessment) \<noteq> None
   \<and> example_getTime (created_at second_assessment) \<noteq> None
   \<and> latest_assessment example_getTime [first_assessment, second_assessment]
       = Some second_assessment"
proof -
  have valid: "\<forall>a \<in> set [first_assessment, second_assessment].
      example_getTime (created_at a) \<noteq> None"
    by (simp add: first_assessment_def second_assessment_def example_assessment_def
        example_getTime_def)
  have nonempty: "[first_assessment, second_assessment] \<noteq> []" by simp
  from latest_assessment_is_maximal [OF nonempty valid]
  obtain latest where sel: "latest_assessment example_getTime
        [first_assessment, second_assessment] = Some latest"
    and mem: "latest \<in> set [first_assessment, second_assessment]"
    and top: "\<forall>a \<in> set [first_assessment, second_assessment].
        the (example_getTime (created_at a)) \<le> the (example_getTime (created_at latest))"
    by blast
  have "latest \<noteq> first_assessment"
    using top by (auto simp add: first_assessment_def second_assessment_def
        example_assessment_def example_getTime_def)
  with mem have "latest = second_assessment" by simp
  with sel valid show ?thesis by simp
qed

subsection \<open>Saving a prompt template\<close>

text \<open>
  C3. When the user template does not contain the placeholder \<^verbatim>\<open>{transcript}\<close>, saving
  fails: the dialog reports an error, stays open, and the save callback is not run, so
  the world outside the dialog is left as it was, whatever the callback is. The check is
  made when the template is saved: every template the dialog hands to a callback that
  records what it is given contains the placeholder, so a renderer never meets a
  template saved without it.
\<close>

theorem save_rejects_template_without_placeholder:
  "(\<not> js_includes (userTemplate ed) ''{transcript}'' \<longrightarrow>
       snd (TemplateEditorDialog_handleSave onSave ed w) = w
     \<and> ed_error (fst (TemplateEditorDialog_handleSave onSave ed w)) \<noteq> None
     \<and> ed_open (fst (TemplateEditorDialog_handleSave onSave ed w)) = ed_open ed)
   \<and> list_all (\<lambda>data. js_includes (ptc_user_template data) ''{transcript}'')
       (snd (TemplateEditorDialog_handleSave
               (\<lambda>data tid saved. (outcome, saved @ [data])) ed []))"
proof (intro conjI impI)
  assume "\<not> js_includes (userTemplate ed) ''{transcript}''"
  then show "snd (TemplateEditorDialog_handleSave onSave ed w) = w"
    and "ed_error (fst (TemplateEditorDialog_handleSave onSave ed w)) \<noteq> None"
    and "ed_open (fst (TemplateEditorDialog_handleSave onSave ed w)) = ed_open ed"
    by (simp_all add: TemplateEditorDialog_handleSave_def)
next
  show "list_all (\<lambda>data. js_includes (ptc_user_template data) ''{transcript}'')
       (snd (TemplateEditorDialog_handleSave
               (\<lambda>data tid saved. (outcome, saved @ [data])) ed []))"
    by (cases outcome) (simp_all add: TemplateEditorDialog_handleSave_def Let_def)
qed

theorem save_rejects_template_without_placeholder_witness:
  "\<not> js_includes (userTemplate example_editor) ''{transcript}''
   \<and> snd (TemplateEditorDialog_handleSave
            (PromptTemplates_handleSave (\<lambda>request. None) (Some ''jwt'')) example_editor []) = []
   \<and> ed_error (fst (TemplateEditorDialog_handleSave
            (PromptTemplates_handleSave (\<lambda>request. None) (Some ''jwt'')) example_editor []))
       \<noteq> None"
proof -
  have absent: "\<not> js_includes (userTemplate example_editor) ''{transcript}''"
    by (simp add: example_editor_def)
  note rejected = mp [OF conjunct1 [OF save_rejects_template_without_placeholder
        [of example_editor "PromptTemplates_handleSave (\<lambda>request. None) (Some ''jwt'')" "[]"]]
      absent]
  show ?thesis
    by (rule conjI [OF absent conjI [OF conjunct1 [OF rejected]
          conjunct1 [OF conjunct2 [OF rejected]]]])
qed

subsection \<open>Editing an evaluation dataset\<close>

lemma list_all2_map_same: "list_all2 P xs (map f xs) \<longleftrightarrow> (\<forall>x \<in> set xs. P x (f x))"
  by (induction xs) auto

text \<open>
  C5. An edit of an existing dataset (a save with the dataset's id) changes at most the
  name and the description of the datasets the backend holds: every other field of every
  dataset, the source path and the number of examples among them, is what it was, and
  the table keeps its length and order.
\<close>

theorem edit_changes_only_name_and_description:
  assumes "truthy_string did"
  shows "list_all2 (\<lambda>d d'. d' = d\<lparr>ds_name := ds_name d', ds_description := ds_description d'\<rparr>)
           table (snd (Evaluations_handleSave create accessToken data did table))
       \<and> map ds_source_path (snd (Evaluations_handleSave create accessToken data did table))
           = map ds_source_path table
       \<and> map num_examples (snd (Evaluations_handleSave create accessToken data did table))
           = map num_examples table"
  using assms
  by (auto simp add: Evaluations_handleSave_def updateEvaluationDataset_def patch_dataset_def
      list_all2_map_same list_all2_same)

theorem edit_changes_only_name_and_description_witness:
  "truthy_string (Some ''d1'')
   \<and> snd (Evaluations_handleSave (\<lambda>data table. (None, [])) (Some ''jwt'')
            \<lparr>dc_name = ''Gold set 2025'', dc_description = Some ''relabelled'',
             dc_file = Some ''id,transcript''\<rparr>
            (Some ''d1'') [example_dataset])
       = [example_dataset\<lparr>ds_name := ''Gold set 2025'', ds_description := Some ''relabelled''\<rparr>]"
proof -
  have edit: "truthy_string (Some ''d1'')" by simp
  have "snd (Evaluations_handleSave (\<lambda>data table. (None, [])) (Some ''jwt'')
            \<lparr>dc_name = ''Gold set 2025'', dc_description = Some ''relabelled'',
             dc_file = Some ''id,transcript''\<rparr>
            (Some ''d1'') [example_dataset])
       = [example_dataset\<lparr>ds_name := ''Gold set 2025'', ds_description := Some ''relabelled''\<rparr>]"
    using edit_changes_only_name_and_description [OF edit, of "[example_dataset]"
        "\<lambda>data table. (None, [])" "Some ''jwt''"
        "\<lparr>dc_name = ''Gold set 2025'', dc_description = Some ''relabelled'',
         dc_file = Some ''id,transcript''\<rparr>"]
    by (simp add: Evaluations_handleSave_def updateEvaluationDataset_def patch_dataset_def
        example_dataset_def)
  with edit show ?thesis by simp
qed

subsection \<open>Activating a prompt template\<close>

lemma find_by_id:
  assumes "distinct (map pt_id table)" and "target \<in> set table"
  shows "find (\<lambda>t. pt_id t = pt_id target) table = Some target"
  using assms by (induction table) (auto simp add: image_iff)

lemma same_id_same_template:
  assumes "distinct (map pt_id table)" and "target \<in> set table"
  shows "\<forall>t \<in> set table. pt_id t = pt_id target \<longrightarrow> t = target"
  using assms by (metis distinct_map inj_onD)

lemma one_with_id:
  assumes "distinct (map pt_id table)" and "target \<in> set table"
  shows "length (filter (\<lambda>t. pt_id t = pt_id target) table) = 1"
  using assms
proof (induction table)
  case Nil
  then show ?case by simp
next
  case (Cons t table)
  show ?case
  proof (cases "pt_id t = pt_id target")
    case True
    with Cons.prems have "\<forall>u \<in> set table. pt_id u \<noteq> pt_id target"
      by (auto simp add: image_iff)
    then have "filter (\<lambda>t. pt_id t = pt_id target) table = []"
      by (simp add: filter_empty_conv)
    with True show ?thesis by simp
  next
    case False
    with Cons show ?thesis by auto
  qed
qed

lemma zip_map_same: "zip xs (map f xs) = map (\<lambda>x. (x, f x)) xs"
  by (induction xs) simp_all

lemma length_filter_split:
  "length (filter P xs)
     = length (filter (\<lambda>x. P x \<and> Q x) xs) + length (filter (\<lambda>x. P x \<and> \<not> Q x) xs)"
  by (induction xs) simp_all

lemma activate_result:
  assumes "distinct (map pt_id table)" and "target \<in> set table"
  shows "activatePromptTemplate (pt_id target) table = (None, map (set_active target) table)"
  by (simp add: activatePromptTemplate_def find_by_id [OF assms])

lemma active_after:
  assumes "distinct (map pt_id table)" and "target \<in> set table"
  shows "active_count (organization_id target) (map (set_active target) table) = 1"
proof -
  have "(\<lambda>t. organization_id (set_active target t) = organization_id target
              \<and> is_active (set_active target t))
        = (\<lambda>t. pt_id t = pt_id target \<and> organization_id t = organization_id target)"
    by (rule ext) (auto simp add: set_active_def)
  then have "active_count (organization_id target) (map (set_active target) table)
        = length (filter (\<lambda>t. pt_id t = pt_id target
                               \<and> organization_id t = organization_id target) table)"
    by (simp add: active_count_def length_filter_map comp_def)
  also have "\<dots> = length (filter (\<lambda>t. pt_id t = pt_id target) table)
                   - length (filter (\<lambda>t. pt_id t = pt_id target
                               \<and> organization_id t \<noteq> organization_id target) table)"
    using length_filter_split [of "\<lambda>t. pt_id t = pt_id target" table
        "\<lambda>t. organization_id t = organization_id target"] by simp
  also have "length (filter (\<lambda>t. pt_id t = pt_id target
                               \<and> organization_id t \<noteq> organization_id target) table) = 0"
    using same_id_same_template [OF assms] by (auto simp add: filter_empty_conv)
  finally show ?thesis by (simp add: one_with_id [OF assms])
qed

lemma active_elsewhere:
  assumes "org \<noteq> organization_id target"
  shows "active_count org (map (set_active target) table) = active_count org table"
proof -
  have "(\<lambda>t. organization_id (set_active target t) = org \<and> is_active (set_active target t))
        = (\<lambda>t. organization_id t = org \<and> is_active t)"
    using assms by (intro ext) (auto simp add: set_active_def)
  then show ?thesis by (simp add: active_count_def length_filter_map comp_def)
qed

lemma deactivated_by_activation:
  "deactivated_count (organization_id target) table (map (set_active target) table)
     = length (filter (\<lambda>t. organization_id t = organization_id target \<and> is_active t
                            \<and> pt_id t \<noteq> pt_id target) table)"
proof -
  have "(\<lambda>t. organization_id t = organization_id target \<and> is_active t
              \<and> \<not> is_active (set_active target t))
        = (\<lambda>t. organization_id t = organization_id target \<and> is_active t
              \<and> pt_id t \<noteq> pt_id target)"
    by (rule ext) (auto simp add: set_active_def)
  then show ?thesis
    by (simp add: deactivated_count_def zip_map_same length_filter_map comp_def)
qed

lemma others_active:
  assumes "distinct (map pt_id table)" and "target \<in> set table"
  shows "active_count (organization_id target) table
     = length (filter (\<lambda>t. organization_id t = organization_id target \<and> is_active t
                            \<and> pt_id t \<noteq> pt_id target) table)
       + (if is_active target then 1 else 0)"
proof -
  have same: "\<forall>t \<in> set table. pt_id t = pt_id target \<longrightarrow> t = target"
    by (rule same_id_same_template [OF assms])
  have "length (filter (\<lambda>t. (organization_id t = organization_id target \<and> is_active t)
                            \<and> \<not> pt_id t \<noteq> pt_id target) table)
      = (if is_active target then 1 else 0)"
  proof (cases "is_active target")
    case True
    have "filter (\<lambda>t. (organization_id t = organization_id target \<and> is_active t)
                            \<and> \<not> pt_id t \<noteq> pt_id target) table
        = filter (\<lambda>t. pt_id t = pt_id target) table"
      using same True by (intro filter_cong) auto
    with True show ?thesis by (simp add: one_with_id [OF assms])
  next
    case False
    with same show ?thesis by (auto simp add: filter_empty_conv)
  qed
  with length_filter_split [of "\<lambda>t. organization_id t = organization_id target \<and> is_active t"
      table "\<lambda>t. pt_id t \<noteq> pt_id target"]
  show ?thesis by (simp add: active_count_def)
qed

lemma only_with_id:
  assumes "distinct (map pt_id table)" and "target \<in> set table"
  shows "filter (\<lambda>t. pt_id t = pt_id target) table = [target]"
  using assms
proof (induction table)
  case Nil
  then show ?case by simp
next
  case (Cons t table)
  show ?case
  proof (cases "pt_id t = pt_id target")
    case True
    with Cons.prems have "\<forall>u \<in> set table. pt_id u \<noteq> pt_id target"
      by (auto simp add: image_iff)
    then have none: "filter (\<lambda>t. pt_id t = pt_id target) table = []"
      by (simp add: filter_empty_conv)
    from True Cons.prems have "t = target" by (auto simp add: image_iff)
    with True none show ?thesis by simp
  next
    case False
    with Cons show ?thesis by auto
  qed
qed

lemma only_active_after:
  assumes "distinct (map pt_id table)" and "target \<in> set table"
  shows "active_templates (organization_id target) (map (set_active target) table)
     = [target\<lparr>is_active := True\<rparr>]"
proof -
  have same: "\<forall>t \<in> set table. pt_id t = pt_id target \<longrightarrow> t = target"
    by (rule same_id_same_template [OF assms])
  have "filter ((\<lambda>t. organization_id t = organization_id target \<and> is_active t) \<circ> set_active target)
          table
      = filter (\<lambda>t. pt_id t = pt_id target) table"
    using same by (intro filter_cong) (auto simp add: set_active_def)
  then have "active_templates (organization_id target) (map (set_active target) table)
      = map (set_active target) [target]"
    by (simp add: active_templates_def filter_map only_with_id [OF assms])
  then show ?thesis by (simp add: set_active_def)
qed

lemma fields_kept:
  "map (\<lambda>t. t\<lparr>is_active := False\<rparr>) (map (set_active target) table)
     = map (\<lambda>t. t\<lparr>is_active := False\<rparr>) table"
  by (simp add: set_active_def)

lemma other_tenants_kept:
  "filter (\<lambda>t. organization_id t \<noteq> organization_id target) (map (set_active target) table)
     = filter (\<lambda>t. organization_id t \<noteq> organization_id target) table"
  by (induction table) (simp_all add: set_active_def)

text \<open>
  C6, as stated, fails where the tenant has no active template: the tenant then has not
  exactly one active template, and the activation deactivates none.
\<close>

theorem activation_without_active_template_counterexample:
  "active_count ''org-1'' three_inactive_templates = 0
   \<and> deactivated_count ''org-1'' three_inactive_templates
        (snd (PromptTemplates_handleActivate (Some ''jwt'') ''t1'' three_inactive_templates)) = 0"
  by (simp add: three_inactive_templates_def example_template_def active_count_def
      deactivated_count_def PromptTemplates_handleActivate_def activatePromptTemplate_def
      set_active_def)

text \<open>
  C6, amended. Where template ids are distinct and the tenant of the activated template
  has at most one active template, the activation succeeds and makes the activated
  template the tenant's only active template: the active templates of the tenant are
  then the activated template alone, marked active. It deactivates the tenant's active
  template when the activated template was not active (one template if there was an
  active one, none otherwise), and none when the activated template was the active one.
  The card offers the activation for an inactive template only, so an activation from
  the page deactivates as many templates as were active: one or none. Every template
  keeps its place and all its fields but the active mark, and the templates of the other
  tenants are unchanged.
\<close>

theorem activation_leaves_one_active:
  assumes "distinct (map pt_id table)" and "target \<in> set table"
    and "truthy_string accessToken"
    and "active_count (organization_id target) table \<le> 1"
  shows "fst (PromptTemplates_handleActivate accessToken (pt_id target) table) = None
       \<and> active_templates (organization_id target)
            (snd (PromptTemplates_handleActivate accessToken (pt_id target) table))
          = [target\<lparr>is_active := True\<rparr>]
       \<and> active_count (organization_id target)
            (snd (PromptTemplates_handleActivate accessToken (pt_id target) table)) = 1
       \<and> deactivated_count (organization_id target) table
            (snd (PromptTemplates_handleActivate accessToken (pt_id target) table))
          = (if is_active target then 0 else active_count (organization_id target) table)
       \<and> (TemplateCard_offers_activate isAdmin target \<longrightarrow>
            deactivated_count (organization_id target) table
              (snd (PromptTemplates_handleActivate accessToken (pt_id target) table))
            = active_count (organization_id target) table)
       \<and> map (\<lambda>t. t\<lparr>is_active := False\<rparr>)
            (snd (PromptTemplates_handleActivate accessToken (pt_id target) table))
          = map (\<lambda>t. t\<lparr>is_active := False\<rparr>) table
       \<and> filter (\<lambda>t. organization_id t \<noteq> organization_id target)
            (snd (PromptTemplates_handleActivate accessToken (pt_id target) table))
          = filter (\<lambda>t. organization_id t \<noteq> organization_id target) table
       \<and> (\<forall>org. org \<noteq> organization_id target \<longrightarrow>
            active_count org (snd (PromptTemplates_handleActivate accessToken (pt_id target) table))
            = active_count org table)"
proof -
  have run: "PromptTemplates_handleActivate accessToken (pt_id target) table
      = (None, map (set_active target) table)"
    using assms(3) by (simp add: PromptTemplates_handleActivate_def activate_result [OF assms(1,2)])
  have deactivated:
    "deactivated_count (organization_id target) table (map (set_active target) table)
      = (if is_active target then 0 else active_count (organization_id target) table)"
    using others_active [OF assms(1,2)] assms(4)
    by (cases "is_active target") (simp_all add: deactivated_by_activation del: length_0_conv)
  then have offered: "TemplateCard_offers_activate isAdmin target \<longrightarrow>
      deactivated_count (organization_id target) table (map (set_active target) table)
        = active_count (organization_id target) table"
    by (simp add: TemplateCard_offers_activate_def)
  have elsewhere: "\<forall>org. org \<noteq> organization_id target \<longrightarrow>
      active_count org (map (set_active target) table) = active_count org table"
    by (simp add: active_elsewhere)
  show ?thesis
    unfolding run fst_conv snd_conv
    by (intro conjI refl only_active_after [OF assms(1,2)] active_after [OF assms(1,2)]
        deactivated offered fields_kept other_tenants_kept elsewhere)
qed

theorem activation_leaves_one_active_witness:
  "distinct (map pt_id three_templates)
   \<and> example_template ''t1'' False \<in> set three_templates
   \<and> truthy_string (Some ''jwt'')
   \<and> active_count ''org-1'' three_templates \<le> 1
   \<and> active_templates ''org-1'' three_templates = [example_template ''t2'' True]
   \<and> active_templates ''org-1''
        (snd (PromptTemplates_handleActivate (Some ''jwt'') ''t1'' three_templates))
      = [example_template ''t1'' True]
   \<and> active_count ''org-1''
        (snd (PromptTemplates_handleActivate (Some ''jwt'') ''t1'' three_templates)) = 1
   \<and> deactivated_count ''org-1'' three_templates
        (snd (PromptTemplates_handleActivate (Some ''jwt'') ''t1'' three_templates)) = 1"
proof -
  have ids: "distinct (map pt_id three_templates)"
    by (simp add: three_templates_def example_template_def)
  have mem: "example_template ''t1'' False \<in> set three_templates"
    by (simp add: three_templates_def)
  have tok: "truthy_string (Some ''jwt'')" by simp
  have one: "active_count (organization_id (example_template ''t1'' False)) three_templates \<le> 1"
    by (simp add: three_templates_def example_template_def active_count_def)
  have before: "active_templates ''org-1'' three_templates = [example_template ''t2'' True]"
    by (simp add: three_templates_def example_template_def active_templates_def)
  from activation_leaves_one_active [OF ids mem tok one] ids mem tok one before
  show ?thesis
    by (simp add: example_template_def three_templates_def active_count_def)
qed

subsection \<open>Parsing a transcript\<close>

lemma message_of_plain_item:
  assumes "plain_item item"
  shows "message_of_item toLowerCase item = Inr (item_message toLowerCase item)"
proof (cases item)
  case (JObject members)
  with assms show ?thesis
    by (auto simp add: message_of_item_def item_message_def plain_item_def speaker_value_def
        speaker_string_def text_value_def or_default_def
        split: option.splits json.splits if_splits)
qed (use assms in \<open>simp_all add: message_of_item_def item_message_def plain_item_def
      speaker_value_def speaker_string_def text_value_def or_default_def logical_or_def\<close>)

lemma message_of_other_item:
  assumes "\<not> plain_item item"
  shows "\<exists>e. message_of_item toLowerCase item = Inl e"
proof (cases item)
  case (JObject members)
  with assms show ?thesis
    by (auto simp add: message_of_item_def plain_item_def speaker_value_def or_default_def
        split: option.splits json.splits if_splits)
qed (use assms in \<open>simp_all add: message_of_item_def plain_item_def speaker_value_def\<close>)

lemma map_items_plain:
  assumes "list_all plain_item items"
  shows "map_items toLowerCase items = Inr (map (item_message toLowerCase) items)"
  using assms by (induction items) (simp_all add: message_of_plain_item)

lemma map_items_other:
  assumes "\<not> list_all plain_item items"
  shows "\<exists>e. map_items toLowerCase items = Inl e"
  using assms
proof (induction items)
  case Nil
  then show ?case by simp
next
  case (Cons item items)
  show ?case
  proof (cases "plain_item item")
    case True
    with Cons obtain e where "map_items toLowerCase items = Inl e" by auto
    with True show ?thesis by (simp add: message_of_plain_item)
  next
    case False
    then obtain e where "message_of_item toLowerCase item = Inl e"
      using message_of_other_item by blast
    then show ?thesis by simp
  qed
qed

lemma append_to_last_snoc:
  "append_to_last (acc @ [m]) suffix
     = Inr (acc @ [m\<lparr>message_text := message_text m @ suffix\<rparr>])"
  by (simp add: append_to_last_def)

lemma parse_lines_untagged_block:
  assumes "\<forall>u \<in> set us. untagged u \<and> js_trim u \<noteq> []"
  shows "parse_lines toLowerCase (us @ rest) (acc @ [m])
     = parse_lines toLowerCase rest
         (acc @ [m\<lparr>message_text := message_text m
                                     @ concat (map (\<lambda>u. js '' '' @ js_trim u) us)\<rparr>])"
  using assms
proof (induction us arbitrary: m)
  case Nil
  then show ?case by simp
next
  case (Cons u us)
  then have u: "line_match u = None" "js_trim u \<noteq> []" by (simp_all add: untagged_def)
  have "parse_lines toLowerCase ((u # us) @ rest) (acc @ [m])
      = parse_lines toLowerCase (us @ rest)
          (acc @ [m\<lparr>message_text := message_text m @ js '' '' @ js_trim u\<rparr>])"
    using u by (simp add: append_to_last_snoc)
  also have "\<dots> = parse_lines toLowerCase rest
      (acc @ [m\<lparr>message_text := message_text m @ js '' '' @ js_trim u\<rparr>
                \<lparr>message_text := message_text (m\<lparr>message_text := message_text m @ js '' '' @ js_trim u\<rparr>)
                   @ concat (map (\<lambda>u. js '' '' @ js_trim u) us)\<rparr>])"
    using Cons.prems by (intro Cons.IH) simp
  finally show ?case by simp
qed

lemma parse_lines_opening:
  assumes "acc = [] \<or> \<not> untagged line" and "js_trim line \<noteq> []"
  shows "parse_lines toLowerCase (line # lines) acc
     = parse_lines toLowerCase lines (acc @ [opening_message toLowerCase line])"
  using assms by (auto simp add: opening_message_def untagged_def split: option.splits)

lemma parse_lines_grouped:
  assumes "\<forall>l \<in> set lines. js_trim l \<noteq> []"
    and "acc = [] \<or> lines = [] \<or> \<not> untagged (hd lines)"
  shows "parse_lines toLowerCase lines acc = Inr (acc @ grouped_messages toLowerCase lines)"
  using assms
proof (induction toLowerCase lines arbitrary: acc rule: grouped_messages.induct)
  case (1 toLowerCase)
  then show ?case by simp
next
  case (2 toLowerCase line lines)
  let ?us = "takeWhile untagged lines"
  let ?rest = "dropWhile untagged lines"
  let ?m = "(opening_message toLowerCase line)
       \<lparr>message_text := message_text (opening_message toLowerCase line)
                          @ concat (map (\<lambda>u. js '' '' @ js_trim u) ?us)\<rparr>"
  have split: "lines = ?us @ ?rest" by simp
  have us: "\<forall>u \<in> set ?us. untagged u \<and> js_trim u \<noteq> []"
    using "2.prems"(1) by (auto dest: set_takeWhileD)
  have rest: "\<forall>l \<in> set ?rest. js_trim l \<noteq> []"
    using "2.prems"(1) by (auto dest: set_dropWhileD)
  have next_tagged: "acc @ [?m] = [] \<or> ?rest = [] \<or> \<not> untagged (hd ?rest)"
    using hd_dropWhile [of untagged lines] by auto
  have "parse_lines toLowerCase (line # lines) acc
      = parse_lines toLowerCase lines (acc @ [opening_message toLowerCase line])"
    using "2.prems" by (intro parse_lines_opening) auto
  also have "\<dots> = parse_lines toLowerCase (?us @ ?rest) (acc @ [opening_message toLowerCase line])"
    by simp
  also have "\<dots> = parse_lines toLowerCase ?rest (acc @ [?m])"
    by (rule parse_lines_untagged_block [OF us])
  also have "\<dots> = Inr ((acc @ [?m]) @ grouped_messages toLowerCase ?rest)"
    by (rule "2.IH" [OF rest next_tagged])
  finally show ?case by simp
qed

lemma nonblank_lines_nonblank: "\<forall>l \<in> set (nonblank_lines raw). js_trim l \<noteq> []"
  by (simp add: nonblank_lines_def)

lemma parse_lines_nonblank:
  "parse_lines toLowerCase (nonblank_lines raw) []
     = Inr (grouped_messages toLowerCase (nonblank_lines raw))"
  using parse_lines_grouped [OF nonblank_lines_nonblank, of "[]" raw toLowerCase] by simp

lemma whitespace_then_rest_iff:
  "whitespace_then_rest r \<noteq> None \<longleftrightarrow>
     r \<noteq> [] \<and> (if dropWhile js_white_space r = [] then \<not> isLineTerminator (last r)
                else list_all (\<lambda>c. \<not> isLineTerminator c) (dropWhile js_white_space r))"
proof (induction r)
  case Nil
  then show ?case by (simp add: dot_plus_to_end_def)
next
  case (Cons c r)
  show ?case
  proof (cases "js_white_space c")
    case False
    then show ?thesis by (simp add: dot_plus_to_end_def)
  next
    case True
    have sub: "set (dropWhile js_white_space r) \<subseteq> set r" by (auto dest: set_dropWhileD)
    show ?thesis
    proof (cases "whitespace_then_rest r")
      case (Some g)
      with Cons.IH True show ?thesis by (auto split: if_splits)
    next
      case None
      with Cons.IH True sub show ?thesis
        by (cases "r = []") (auto simp add: dot_plus_to_end_def list_all_iff split: if_splits)
    qed
  qed
qed

lemma tagged_iff:
  "\<not> untagged line \<longleftrightarrow>
     (\<exists>tag r. (bracket_tag line = Some (tag, r) \<or> colon_tag line = Some (tag, r))
              \<and> whitespace_then_rest r \<noteq> None)"
  by (auto simp add: untagged_def line_match_def split: option.splits)

lemma whitespace_then_rest_plain:
  assumes "list_all (\<lambda>c. \<not> isLineTerminator c) r"
  shows "whitespace_then_rest r \<noteq> None \<longleftrightarrow> r \<noteq> []"
proof -
  have "set (dropWhile js_white_space r) \<subseteq> set r" by (auto dest: set_dropWhileD)
  with assms have "list_all (\<lambda>c. \<not> isLineTerminator c) (dropWhile js_white_space r)"
    by (auto simp add: list_all_iff)
  moreover have "r \<noteq> [] \<longrightarrow> \<not> isLineTerminator (last r)"
    using assms by (auto simp add: list_all_iff)
  ultimately show ?thesis unfolding whitespace_then_rest_iff by auto
qed

lemma tag_until_rest:
  assumes "tag_until stop s = Some (tag, r)"
  shows "set r \<subseteq> set s"
proof -
  from assms have "r = tl (dropWhile (\<lambda>c. c \<noteq> stop) s)"
    by (auto simp add: tag_until_def Let_def split: if_splits)
  then have "set r \<subseteq> set (dropWhile (\<lambda>c. c \<noteq> stop) s)"
    by (metis list.set_sel(2) subsetI tl_Nil)
  then show ?thesis by (auto dest: set_dropWhileD)
qed

lemma bracket_tag_rest:
  assumes "bracket_tag line = Some (tag, r)"
  shows "set r \<subseteq> set line"
  using assms tag_until_rest
  by (cases line) (fastforce simp add: bracket_tag_def split: if_splits)+

lemma colon_tag_rest:
  assumes "colon_tag line = Some (tag, r)"
  shows "set r \<subseteq> set line"
  using assms tag_until_rest by (simp add: colon_tag_def)

lemma tagged_plain_line:
  assumes "list_all (\<lambda>c. \<not> isLineTerminator c) line"
  shows "untagged line \<longleftrightarrow> \<not> prefix_and_more line"
proof -
  have plain: "whitespace_then_rest r \<noteq> None \<longleftrightarrow> r \<noteq> []" if "set r \<subseteq> set line" for r
    using that assms by (intro whitespace_then_rest_plain) (auto simp add: list_all_iff)
  show ?thesis
  proof (cases "bracket_tag line")
    case None
    show ?thesis
    proof (cases "colon_tag line")
      case None
      with \<open>bracket_tag line = None\<close> show ?thesis
        by (simp add: untagged_def line_match_def prefix_and_more_def)
    next
      case (Some p)
      obtain tag r where p: "p = (tag, r)" by (cases p)
      with Some plain [OF colon_tag_rest [of line tag r]] \<open>bracket_tag line = None\<close>
      show ?thesis by (auto simp add: untagged_def line_match_def prefix_and_more_def)
    qed
  next
    case (Some p)
    obtain tag r where p: "p = (tag, r)" by (cases p)
    note b = plain [OF bracket_tag_rest [of line tag r]]
    show ?thesis
    proof (cases "colon_tag line")
      case None
      with Some p b show ?thesis
        by (auto simp add: untagged_def line_match_def prefix_and_more_def)
    next
      case (Some q)
      obtain tag' r' where q: "q = (tag', r')" by (cases q)
      with Some \<open>bracket_tag line = Some p\<close> p b plain [OF colon_tag_rest [of line tag' r']]
      show ?thesis by (auto simp add: untagged_def line_match_def prefix_and_more_def)
    qed
  qed
qed

lemma split_from_lines:
  assumes "line \<in> set (split_from cur s)" and "0x000A \<notin> set cur"
  shows "0x000A \<notin> set line \<and> set line \<subseteq> set cur \<union> set s"
  using assms
proof (induction s arbitrary: cur)
  case Nil
  then show ?case by simp
next
  case (Cons c s)
  show ?case
  proof (cases "c = 0x000A")
    case True
    with Cons.prems have "line = rev cur \<or> line \<in> set (split_from [] s)" by simp
    then show ?thesis
    proof
      assume "line = rev cur"
      with Cons.prems(2) show ?thesis by auto
    next
      assume "line \<in> set (split_from [] s)"
      from Cons.IH [OF this] show ?thesis by auto
    qed
  next
    case False
    with Cons.prems have "line \<in> set (split_from (c # cur) s)" and "0x000A \<notin> set (c # cur)"
      by auto
    from Cons.IH [OF this] show ?thesis by auto
  qed
qed

lemma plain_lines:
  assumes "line_feeds_only raw" and "line \<in> set (nonblank_lines raw)"
  shows "list_all (\<lambda>c. \<not> isLineTerminator c) line"
proof -
  from assms(2) have "line \<in> set (split_from [] raw)"
    by (simp add: nonblank_lines_def split_newline_def)
  then have "0x000A \<notin> set line \<and> set line \<subseteq> set [] \<union> set raw"
    by (rule split_from_lines) simp
  with assms(1) show ?thesis
    by (auto simp add: line_feeds_only_def isLineTerminator_def list_all_iff)
qed

lemma tagged_lines_of_plain_text:
  assumes "line_feeds_only raw"
  shows "list_all (\<lambda>line. untagged line \<longleftrightarrow> \<not> prefix_and_more line) (nonblank_lines raw)"
  using plain_lines [OF assms] tagged_plain_line by (simp add: list_all_iff)

lemma opening_message_untagged:
  assumes "untagged line"
  shows "opening_message toLowerCase line
     = \<lparr>speaker = js ''Unknown'', message_text = js_trim line, isRep = False\<rparr>"
  using assms by (simp add: opening_message_def untagged_def)

lemma opening_message_isRep:
  assumes "\<not> untagged line"
  shows "isRep (opening_message toLowerCase line) \<longleftrightarrow>
     js_includes (toLowerCase (speaker (opening_message toLowerCase line))) (js ''rep'')
     \<or> js_includes (toLowerCase (speaker (opening_message toLowerCase line))) (js ''sales'')"
  using assms
  by (auto simp add: opening_message_def untagged_def tagged_message_def Let_def
      split: option.splits)

lemma grouped_messages_count:
  "length (grouped_messages toLowerCase lines)
     = length (filter (\<lambda>l. \<not> untagged l) lines)
       + (if lines \<noteq> [] \<and> untagged (hd lines) then 1 else 0)"
proof (induction toLowerCase lines rule: grouped_messages.induct)
  case (1 toLowerCase)
  then show ?case by simp
next
  case (2 toLowerCase line lines)
  have "filter (\<lambda>l. \<not> untagged l) (takeWhile untagged lines @ dropWhile untagged lines)
      = filter (\<lambda>l. \<not> untagged l) (dropWhile untagged lines)"
    unfolding filter_append by (simp add: filter_empty_conv) (auto dest: set_takeWhileD)
  then have tagged: "filter (\<lambda>l. \<not> untagged l) lines
      = filter (\<lambda>l. \<not> untagged l) (dropWhile untagged lines)" by simp
  have "\<not> (dropWhile untagged lines \<noteq> [] \<and> untagged (hd (dropWhile untagged lines)))"
    using hd_dropWhile [of untagged lines] by auto
  with "2.IH" tagged show ?case by simp
qed

lemma parseTranscript_grouped:
  "parseTranscript toLowerCase parsed raw =
     Inr (case array_items parsed of
            Some items \<Rightarrow>
              if list_all plain_item items then map (item_message toLowerCase) items
              else map as_json_message (grouped_messages toLowerCase (nonblank_lines raw))
          | None \<Rightarrow> map as_json_message (grouped_messages toLowerCase (nonblank_lines raw)))"
proof (cases "array_items parsed")
  case None
  then have "(case parsed of Some (JArray items) \<Rightarrow>
                (case map_items toLowerCase items of Inr ms \<Rightarrow> Some ms | Inl e \<Rightarrow> None)
            | _ \<Rightarrow> None) = None"
    by (simp add: array_items_def split: option.splits json.splits)
  with None show ?thesis by (simp add: parseTranscript_def parse_lines_nonblank)
next
  case (Some items)
  then have parsed: "parsed = Some (JArray items)"
    by (simp add: array_items_def split: option.splits json.splits)
  show ?thesis
  proof (cases "list_all plain_item items")
    case True
    with Some parsed show ?thesis by (simp add: parseTranscript_def map_items_plain)
  next
    case False
    then obtain e where "map_items toLowerCase items = Inl e" using map_items_other by blast
    with False Some parsed show ?thesis by (simp add: parseTranscript_def parse_lines_nonblank)
  qed
qed

text \<open>
  C10, as stated, fails in three places. A JSON array with a \<^verbatim>\<open>null\<close> element makes the
  map throw, and the text of the array is then read as lines: two elements give one
  message. A line that is only a speaker prefix does not match the pattern, which asks
  for a character after the prefix: the line is appended to the message before it. A
  line with a LINE SEPARATOR (U+2028) after its prefix does not match the pattern either,
  since \<^verbatim>\<open>.\<close> does not match a line terminator: it is appended as well.
\<close>

theorem parseTranscript_counterexample:
  "parseTranscript toLowerCase_ASCII (Some (JArray [JNull, JNull])) (js ''[null,null]'')
     = Inr [\<lparr>speaker = JString (js ''Unknown''), message_text = JString (js ''[null,null]''),
             isRep = False\<rparr>]
   \<and> length (nonblank_lines (js ''Buyer: hi\<newline>Rep:'')) = 2
   \<and> list_all has_speaker_prefix (nonblank_lines (js ''Buyer: hi\<newline>Rep:''))
   \<and> parseTranscript toLowerCase_ASCII None (js ''Buyer: hi\<newline>Rep:'')
     = Inr [\<lparr>speaker = JString (js ''Buyer''), message_text = JString (js ''hi Rep:''),
             isRep = False\<rparr>]
   \<and> nonblank_lines (js ''Buyer: a\<newline>Rep: hi'' @ [0x2028] @ js ''there'')
     = [js ''Buyer: a'', js ''Rep: hi'' @ [0x2028] @ js ''there'']
   \<and> list_all prefix_and_more (nonblank_lines (js ''Buyer: a\<newline>Rep: hi'' @ [0x2028] @ js ''there''))
   \<and> parseTranscript toLowerCase_ASCII None (js ''Buyer: a\<newline>Rep: hi'' @ [0x2028] @ js ''there'')
     = Inr [\<lparr>speaker = JString (js ''Buyer''),
             message_text = JString (js ''a Rep: hi'' @ [0x2028] @ js ''there''),
             isRep = False\<rparr>]"
  by code_simp

text \<open>
  C10, amended. \<^verbatim>\<open>parseTranscript\<close> returns a list of messages for every input and never
  throws. When the input parses as a JSON array of plain elements (none is \<^verbatim>\<open>null\<close> and
  every truthy speaker is a string), the list has one message per element, marked as the
  representative's exactly when the speaker, in lower case, contains "rep". Otherwise
  the non-blank lines are grouped: each line that the pattern matches opens a message,
  the other lines are appended to the message before them, and a first line that does
  not match opens a message of the speaker "Unknown", which is not marked; so there is
  one message per matching line, and one more when the first line does not match. In a
  text without CR, LINE SEPARATOR and PARAGRAPH SEPARATOR, a non-blank line matches the
  pattern exactly when it has a speaker prefix and a character after it; so does every
  line without a line terminator. A message that a matching line opens is marked as the
  representative's exactly when its speaker, in lower case, contains "rep" or "sales".
\<close>

theorem parseTranscript_characterised:
  "parseTranscript toLowerCase parsed raw =
     Inr (case array_items parsed of
            Some items \<Rightarrow>
              if list_all plain_item items then map (item_message toLowerCase) items
              else map as_json_message (grouped_messages toLowerCase (nonblank_lines raw))
          | None \<Rightarrow> map as_json_message (grouped_messages toLowerCase (nonblank_lines raw)))
   \<and> length (grouped_messages toLowerCase lines)
       = length (filter (\<lambda>l. \<not> untagged l) lines)
         + (if lines \<noteq> [] \<and> untagged (hd lines) then 1 else 0)
   \<and> (line_feeds_only raw \<longrightarrow>
        list_all (\<lambda>line. untagged line \<longleftrightarrow> \<not> prefix_and_more line) (nonblank_lines raw))
   \<and> (list_all (\<lambda>c. \<not> isLineTerminator c) line \<longrightarrow>
        (untagged line \<longleftrightarrow> \<not> prefix_and_more line))
   \<and> (untagged line \<longrightarrow>
        opening_message toLowerCase line
          = \<lparr>speaker = js ''Unknown'', message_text = js_trim line, isRep = False\<rparr>)
   \<and> (\<not> untagged line \<longrightarrow>
        (isRep (opening_message toLowerCase line) \<longleftrightarrow>
           js_includes (toLowerCase (speaker (opening_message toLowerCase line))) (js ''rep'')
           \<or> js_includes (toLowerCase (speaker (opening_message toLowerCase line))) (js ''sales'')))"
  using parseTranscript_grouped [of toLowerCase parsed raw]
    grouped_messages_count [of toLowerCase lines]
    tagged_lines_of_plain_text [of raw] tagged_plain_line [of line]
    opening_message_untagged [of line toLowerCase] opening_message_isRep [of line toLowerCase]
  by blast

theorem parseTranscript_characterised_witness:
  "line_feeds_only (js ''Sales Rep: Hello\<newline>  there\<newline>\<newline>[Buyer] Hi'')
   \<and> parseTranscript toLowerCase_ASCII None (js ''Sales Rep: Hello\<newline>  there\<newline>\<newline>[Buyer] Hi'')
     = Inr [\<lparr>speaker = JString (js ''Sales Rep''), message_text = JString (js ''Hello there''),
             isRep = True\<rparr>,
            \<lparr>speaker = JString (js ''Buyer''), message_text = JString (js ''Hi''), isRep = False\<rparr>]
   \<and> nonblank_lines (js ''Sales Rep: Hello\<newline>  there\<newline>\<newline>[Buyer] Hi'')
     = [js ''Sales Rep: Hello'', js ''  there'', js ''[Buyer] Hi'']
   \<and> prefix_and_more (js ''Sales Rep: Hello'') \<and> \<not> untagged (js ''Sales Rep: Hello'')
   \<and> \<not> prefix_and_more (js ''  there'') \<and> untagged (js ''  there'')
   \<and> prefix_and_more (js ''[Buyer] Hi'') \<and> \<not> untagged (js ''[Buyer] Hi'')
   \<and> parseTranscript toLowerCase_ASCII (Some example_array)
        (js ''[{\"speaker\":\"Sales Rep\",\"text\":\"Hello\"},{\"speaker_id\":\"buyer-1\",\"content\":\"Hi\"}]'')
     = Inr [\<lparr>speaker = JString (js ''Sales Rep''), message_text = JString (js ''Hello''),
             isRep = True\<rparr>,
            \<lparr>speaker = JString (js ''buyer-1''), message_text = JString (js ''Hi''),
             isRep = False\<rparr>]"
  unfolding conjunct1 [OF parseTranscript_characterised [of toLowerCase_ASCII None _ "[]" "[]"]]
    conjunct1 [OF parseTranscript_characterised
      [of toLowerCase_ASCII "Some example_array" _ "[]" "[]"]]
  by code_simp

subsection \<open>The scoring request\<close>

lemma has_fields_member:
  assumes "has_fields j names" and "name \<in> set names"
  shows "name \<in> set (member_names j)"
  using assms by (cases j) (simp_all add: has_fields_def member_names_def)

lemma member_names_AssessRequest:
  "member_names (AssessRequest_json data) = [js ''transcript'', js ''metadata'']"
  by (simp add: member_names_def AssessRequest_json_def)

lemma sent_request_shape_body: "sent_request_shape (AssessRequest_json data)"
  by (simp add: sent_request_shape_def AssessRequest_json_def has_fields_def member_value_def
      is_string_def is_string_map_def list_all_iff split_beta js_def)

lemma not_the_contract: "\<not> scoring_request_contract (AssessRequest_json data)"
proof
  assume "scoring_request_contract (AssessRequest_json data)"
  then have "has_fields (AssessRequest_json data)
      [js ''transcript_text'', js ''tenant_id'', js ''metadata'']"
    by (simp add: scoring_request_contract_def)
  then have "js ''tenant_id'' \<in> set (member_names (AssessRequest_json data))"
    by (rule has_fields_member) simp
  then show False unfolding member_names_AssessRequest by (simp add: js_def)
qed

lemma is_integer_of_int: "is_integer (JNumber (real_of_int n))"
  by (simp add: is_integer_def)

lemma response_contract: "scoring_response_contract (AssessResponse_json r)"
  by (simp add: scoring_response_contract_def AssessResponse_json_def has_fields_def
      member_value_def is_dimension_map_def AssessmentScores_json_def dimension_names_def
      is_integer_of_int js_def)

lemma assessTranscript_sent:
  "snd (assessTranscript apiFetch data) = [AssessRequest_json data]"
  by (simp add: assessTranscript_def)

lemma assessTranscript_returns:
  assumes "apiFetch (AssessRequest_json data) = Inr response" and "ok response"
    and "body_json response = Some result"
  shows "fst (assessTranscript apiFetch data) = Inr result"
  using assms by (simp add: assessTranscript_def)

lemma handleSubmit_sends:
  assumes "upload_file d = Some t" and "truthy_string accessToken" and "js_trim t \<noteq> []"
  shows "handleSubmit apiFetch accessToken representativeId d =
     (case fst (assessTranscript apiFetch (submitted_request representativeId t d)) of
        Inr result \<Rightarrow>
          (d\<lparr>upload_error := None, assessmentResult := Some result,
             upload_state := state_success\<rparr>,
           [AssessRequest_json (submitted_request representativeId t d)])
      | Inl e \<Rightarrow>
          (d\<lparr>upload_state := state_error,
             upload_error := Some (error_message e ''Failed to assess transcript'')\<rparr>,
           [AssessRequest_json (submitted_request representativeId t d)]))"
proof -
  let ?data = "submitted_request representativeId t d"
  obtain outcome sent where run: "assessTranscript apiFetch ?data = (outcome, sent)"
    by (cases "assessTranscript apiFetch ?data")
  with assessTranscript_sent [of apiFetch ?data] have sent: "sent = [AssessRequest_json ?data]"
    by simp
  from assms have "handleSubmit apiFetch accessToken representativeId d =
     (case assessTranscript apiFetch ?data of
        (Inr result, sent) \<Rightarrow>
          (d\<lparr>upload_error := None, assessmentResult := Some result,
             upload_state := state_success\<rparr>, sent)
      | (Inl e, sent) \<Rightarrow>
          (d\<lparr>upload_state := state_error,
             upload_error := Some (error_message e ''Failed to assess transcript'')\<rparr>, sent))"
    unfolding submitted_request_def by (simp add: handleSubmit_def Let_def)
  with run sent show ?thesis by (cases outcome) simp_all
qed

lemma handleSubmit_refuses:
  assumes "upload_file d = None \<or> \<not> truthy_string accessToken
           \<or> (\<exists>t. upload_file d = Some t \<and> js_trim t = [])"
  shows "snd (handleSubmit apiFetch accessToken representativeId d) = []"
  using assms by (auto simp add: handleSubmit_def split: option.splits)

lemma handleSubmit_bodies:
  "snd (handleSubmit apiFetch accessToken representativeId d) = []
   \<or> (\<exists>data. snd (handleSubmit apiFetch accessToken representativeId d)
               = [AssessRequest_json data])"
proof (cases "\<exists>t. upload_file d = Some t \<and> truthy_string accessToken \<and> js_trim t \<noteq> []")
  case True
  then obtain t where "upload_file d = Some t" "truthy_string accessToken" "js_trim t \<noteq> []"
    by blast
  from handleSubmit_sends [OF this]
  have "snd (handleSubmit apiFetch accessToken representativeId d)
      = [AssessRequest_json (submitted_request representativeId t d)]"
    by (simp split: sum.splits)
  then show ?thesis by blast
next
  case False
  then have "upload_file d = None \<or> \<not> truthy_string accessToken
           \<or> (\<exists>t. upload_file d = Some t \<and> js_trim t = [])"
    by (cases "upload_file d") auto
  then show ?thesis by (simp add: handleSubmit_refuses)
qed

lemma handleSubmit_success:
  assumes "snd (handleSubmit apiFetch accessToken representativeId d) = [body]"
    and "apiFetch body = Inr response" and "ok response"
    and "body_json response = Some result"
  shows "assessmentResult (fst (handleSubmit apiFetch accessToken representativeId d))
           = Some result
       \<and> upload_state (fst (handleSubmit apiFetch accessToken representativeId d))
           = state_success"
proof (cases "\<exists>t. upload_file d = Some t \<and> truthy_string accessToken \<and> js_trim t \<noteq> []")
  case True
  then obtain t where t: "upload_file d = Some t" "truthy_string accessToken" "js_trim t \<noteq> []"
    by blast
  note run = handleSubmit_sends [OF t, of apiFetch representativeId]
  from run assms(1) have "body = AssessRequest_json (submitted_request representativeId t d)"
    by (simp split: sum.splits)
  with assms(2-4)
  have "fst (assessTranscript apiFetch (submitted_request representativeId t d)) = Inr result"
    by (intro assessTranscript_returns) simp_all
  with run show ?thesis by simp
next
  case False
  then have "upload_file d = None \<or> \<not> truthy_string accessToken
           \<or> (\<exists>t. upload_file d = Some t \<and> js_trim t = [])"
    by (cases "upload_file d") auto
  with assms(1) show ?thesis by (simp add: handleSubmit_refuses)
qed

lemma example_submit:
  "handleSubmit example_service (Some ''jwt'') (js ''rep-1'') example_upload
     = (example_upload\<lparr>upload_error := None, assessmentResult := Some example_response_body,
                       upload_state := state_success\<rparr>, [example_body])"
  by code_simp

text \<open>
  C2, as stated, fails on the request: the body the dialog sends has the members
  \<^verbatim>\<open>transcript\<close> and \<^verbatim>\<open>metadata\<close>, and neither \<^verbatim>\<open>transcript_text\<close> nor \<^verbatim>\<open>tenant_id\<close>.
\<close>

theorem scoring_request_counterexample:
  "snd (handleSubmit example_service (Some ''jwt'') (js ''rep-1'') example_upload)
     = [example_body]
   \<and> \<not> scoring_request_contract example_body
   \<and> member_names example_body = [js ''transcript'', js ''metadata'']"
  by code_simp

text \<open>
  C2, amended. Every scoring request the dialog sends is an object with the two members
  \<^verbatim>\<open>transcript\<close> (a string) and \<^verbatim>\<open>metadata\<close> (a map from strings to strings); no request
  has the shape of section 6. A successful call returns the object of the response as the
  service sent it, and the dialog keeps it and shows success; the object a service sends
  on success has the members \<^verbatim>\<open>assessment_id\<close>, \<^verbatim>\<open>scores\<close> (a map from dimension names
  to integers) and \<^verbatim>\<open>coaching\<close>, so that is what the dialog then holds.
\<close>

theorem request_has_transcript_and_metadata:
  "list_all sent_request_shape
     (snd (handleSubmit apiFetch accessToken representativeId d))
   \<and> list_all (\<lambda>body. \<not> scoring_request_contract body)
     (snd (handleSubmit apiFetch accessToken representativeId d))
   \<and> (\<forall>body response result.
         snd (handleSubmit apiFetch accessToken representativeId d) = [body]
         \<and> apiFetch body = Inr response \<and> ok response \<and> body_json response = Some result \<longrightarrow>
         assessmentResult (fst (handleSubmit apiFetch accessToken representativeId d))
           = Some result
         \<and> upload_state (fst (handleSubmit apiFetch accessToken representativeId d))
           = state_success)
   \<and> (\<forall>body r.
         snd (handleSubmit apiFetch accessToken representativeId d) = [body]
         \<and> apiFetch body = Inr (successful_reply r) \<longrightarrow>
         assessmentResult (fst (handleSubmit apiFetch accessToken representativeId d))
           = Some (AssessResponse_json r)
         \<and> scoring_response_contract (AssessResponse_json r)
         \<and> upload_state (fst (handleSubmit apiFetch accessToken representativeId d))
           = state_success)"
proof (intro conjI allI impI)
  show "list_all sent_request_shape
     (snd (handleSubmit apiFetch accessToken representativeId d))"
    using handleSubmit_bodies [of apiFetch accessToken representativeId d]
    by (auto simp add: sent_request_shape_body)
  show "list_all (\<lambda>body. \<not> scoring_request_contract body)
     (snd (handleSubmit apiFetch accessToken representativeId d))"
    using handleSubmit_bodies [of apiFetch accessToken representativeId d]
    by (auto simp add: not_the_contract)
next
  fix body response result
  assume "snd (handleSubmit apiFetch accessToken representativeId d) = [body]
         \<and> apiFetch body = Inr response \<and> ok response \<and> body_json response = Some result"
  then show "assessmentResult (fst (handleSubmit apiFetch accessToken representativeId d))
           = Some result"
    and "upload_state (fst (handleSubmit apiFetch accessToken representativeId d))
           = state_success"
    using handleSubmit_success by blast+
next
  fix body r
  assume sent: "snd (handleSubmit apiFetch accessToken representativeId d) = [body]
         \<and> apiFetch body = Inr (successful_reply r)"
  have "ok (successful_reply r)" and "body_json (successful_reply r) = Some (AssessResponse_json r)"
    by (simp_all add: successful_reply_def)
  with sent show "assessmentResult (fst (handleSubmit apiFetch accessToken representativeId d))
           = Some (AssessResponse_json r)"
    and "upload_state (fst (handleSubmit apiFetch accessToken representativeId d))
           = state_success"
    using handleSubmit_success by blast+
  show "scoring_response_contract (AssessResponse_json r)" by (rule response_contract)
qed

theorem request_has_transcript_and_metadata_witness:
  "snd (handleSubmit example_service (Some ''jwt'') (js ''rep-1'') example_upload)
     = [example_body]
   \<and> example_service example_body = Inr (successful_reply example_response)
   \<and> sent_request_shape example_body
   \<and> assessmentResult
        (fst (handleSubmit example_service (Some ''jwt'') (js ''rep-1'') example_upload))
       = Some example_response_body
   \<and> scoring_response_contract example_response_body
   \<and> member_names example_response_body = [js ''assessment_id'', js ''scores'', js ''coaching'']"
proof -
  have sent: "snd (handleSubmit example_service (Some ''jwt'') (js ''rep-1'') example_upload)
      = [example_body]"
    by (simp add: example_submit)
  have reply: "example_service example_body = Inr (successful_reply example_response)"
    by (simp add: example_service_def)
  have body: "AssessResponse_json example_response = example_response_body"
    by code_simp
  have names: "member_names example_response_body
      = [js ''assessment_id'', js ''scores'', js ''coaching'']"
    by (simp add: member_names_def example_response_body_def)
  from request_has_transcript_and_metadata
    [of example_service "Some ''jwt''" "js ''rep-1''" example_upload] sent reply names
  show ?thesis unfolding body [symmetric] by auto
qed

subsection \<open>The evaluation run report\<close>

lemma metrics_triple_Metrics: "metrics_triple (Some (Metrics_json m))"
  by (simp add: metrics_triple_def Metrics_json_def has_fields_def js_def)

lemma report_contract: "evaluation_run_report_contract (EvaluationReport_json report)"
  by (simp add: evaluation_run_report_contract_def EvaluationReport_json_def has_fields_def
      member_value_def metrics_triple_Metrics list_all_iff split_beta js_def)

lemma all_dimension_metrics_names:
  assumes "all_dimension_metrics engine pairs ds = Inr ms"
  shows "map fst ms = map fst ds"
  using assms
proof (induction ds arbitrary: ms)
  case Nil
  then show ?case by simp
next
  case (Cons d ds)
  obtain name dimension where d: "d = (name, dimension)" by (cases d)
  with Cons.prems obtain m ms' where "all_dimension_metrics engine pairs ds = Inr ms'"
    and "ms = (name, m) # ms'"
    by (auto split: sum.splits)
  with Cons.IH d show ?case by simp
qed

lemma scored_or_failed:
  "length (successful_pairs score dataset) + length (failed_examples score dataset)
     = length dataset"
  by (induction dataset)
     (simp_all add: successful_pairs_def failed_examples_def split: sum.splits)

lemma run_evaluation_report:
  assumes "run_evaluation engine score model version seconds dataset = Inr report"
  shows "n_samples report = length (successful_pairs score dataset)"
    and "n_failed report = length (failed_examples score dataset)"
    and "map fst (per_dimension_metrics report) = map fst dimensions"
    and "macro_averages report = compute_macro_averages (per_dimension_metrics report)"
    and "report_model_name report = model"
    and "report_prompt_version report = version"
    and "runtime_seconds report = seconds"
proof -
  from assms obtain ms
    where ms: "all_dimension_metrics engine (successful_pairs score dataset) dimensions = Inr ms"
      and report: "report =
        \<lparr>report_model_name = model, report_prompt_version = version,
         n_samples = length (successful_pairs score dataset),
         n_failed = length (failed_examples score dataset),
         per_dimension_metrics = ms,
         macro_averages = compute_macro_averages ms,
         runtime_seconds = seconds\<rparr>"
    by (auto simp add: run_evaluation_def split: sum.splits)
  from report show "n_samples report = length (successful_pairs score dataset)"
    and "n_failed report = length (failed_examples score dataset)"
    and "macro_averages report = compute_macro_averages (per_dimension_metrics report)"
    and "report_model_name report = model"
    and "report_prompt_version report = version"
    and "runtime_seconds report = seconds"
    by simp_all
  from report all_dimension_metrics_names [OF ms]
  show "map fst (per_dimension_metrics report) = map fst dimensions" by simp
qed

lemma example_run:
  "run_evaluation example_engine example_score ''gpt-4o-mini'' ''spin_v1'' 2 example_gold_set
     = Inr example_report"
  by code_simp

text \<open>
  C4. The report of an evaluation run is an object with the members \<^verbatim>\<open>model_name\<close>,
  \<^verbatim>\<open>prompt_version\<close>, \<^verbatim>\<open>n_samples\<close>, \<^verbatim>\<open>n_failed\<close>, \<^verbatim>\<open>per_dimension_metrics\<close>,
  \<^verbatim>\<open>macro_averages\<close> and \<^verbatim>\<open>runtime_seconds\<close>; every entry of \<^verbatim>\<open>per_dimension_metrics\<close>, and
  \<^verbatim>\<open>macro_averages\<close>, is an object of \<^verbatim>\<open>pearson_r\<close>, \<^verbatim>\<open>qwk\<close> and \<^verbatim>\<open>band_accuracy\<close>. In the
  report of a run, \<^verbatim>\<open>per_dimension_metrics\<close> has one entry for each of the seven dimensions,
  \<^verbatim>\<open>n_samples\<close> and \<^verbatim>\<open>n_failed\<close> count the scored and the failed examples, which together
  are the dataset, and \<^verbatim>\<open>macro_averages\<close> holds the means of the per-dimension values.
\<close>

theorem evaluation_run_report_fields:
  "evaluation_run_report_contract (EvaluationReport_json report)
   \<and> member_names (EvaluationReport_json report)
       = [js ''model_name'', js ''prompt_version'', js ''n_samples'', js ''n_failed'',
          js ''per_dimension_metrics'', js ''macro_averages'', js ''runtime_seconds'']
   \<and> member_names (Metrics_json m) = [js ''pearson_r'', js ''qwk'', js ''band_accuracy'']
   \<and> (run_evaluation engine score model version seconds dataset = Inr report \<longrightarrow>
        map fst (per_dimension_metrics report) = dimension_names
        \<and> n_samples report = length (successful_pairs score dataset)
        \<and> n_failed report = length (failed_examples score dataset)
        \<and> n_samples report + n_failed report = length dataset
        \<and> macro_averages report = compute_macro_averages (per_dimension_metrics report)
        \<and> report_model_name report = model
        \<and> report_prompt_version report = version
        \<and> runtime_seconds report = seconds)"
proof (intro conjI impI)
  show "evaluation_run_report_contract (EvaluationReport_json report)"
    by (rule report_contract)
  show "member_names (EvaluationReport_json report)
       = [js ''model_name'', js ''prompt_version'', js ''n_samples'', js ''n_failed'',
          js ''per_dimension_metrics'', js ''macro_averages'', js ''runtime_seconds'']"
    by (simp add: member_names_def EvaluationReport_json_def)
  show "member_names (Metrics_json m) = [js ''pearson_r'', js ''qwk'', js ''band_accuracy'']"
    by (simp add: member_names_def Metrics_json_def)
next
  assume run: "run_evaluation engine score model version seconds dataset = Inr report"
  note facts = run_evaluation_report [OF run]
  show "map fst (per_dimension_metrics report) = dimension_names"
    using facts(3) by (simp add: dimensions_def dimension_names_def)
  show "n_samples report = length (successful_pairs score dataset)" by (rule facts(1))
  show "n_failed report = length (failed_examples score dataset)" by (rule facts(2))
  show "n_samples report + n_failed report = length dataset"
    using facts(1,2) scored_or_failed [of score dataset] by simp
  show "macro_averages report = compute_macro_averages (per_dimension_metrics report)"
    by (rule facts(4))
  show "report_model_name report = model" by (rule facts(5))
  show "report_prompt_version report = version" by (rule facts(6))
  show "runtime_seconds report = seconds" by (rule facts(7))
qed

theorem evaluation_run_report_fields_witness:
  "run_evaluation example_engine example_score ''gpt-4o-mini'' ''spin_v1'' 2 example_gold_set
     = Inr example_report
   \<and> evaluation_run_report_contract (EvaluationReport_json example_report)
   \<and> length example_gold_set = 2
   \<and> n_failed example_report = 1
   \<and> n_samples example_report = 1
   \<and> map fst (per_dimension_metrics example_report) = dimension_names"
proof -
  have total: "length example_gold_set = 2" by (simp add: example_gold_set_def)
  have failed: "n_failed example_report = 1" by (simp add: example_report_def)
  from evaluation_run_report_fields
    [of example_report example_metrics example_engine example_score "''gpt-4o-mini''"
        "''spin_v1''" 2 example_gold_set]
    example_run total failed
  show ?thesis by simp
qed

subsection \<open>Linear correlation\<close>

lemma sum_list_constant:
  assumes "\<forall>x \<in> set xs. x = c"
  shows "sum_list xs = c * int (length xs)"
  using assms by (induction xs) (simp_all add: algebra_simps)

lemma mean_constant:
  assumes "\<forall>x \<in> set xs. x = c" and "xs \<noteq> []"
  shows "arithmetic_mean xs = real_of_int c"
  using assms by (simp add: arithmetic_mean_def sum_list_constant)

lemma sum_list_all_zero:
  assumes "\<forall>x \<in> set xs. f x = (0::real)"
  shows "sum_list (map f xs) = 0"
  using assms by (induction xs) simp_all

lemma constant_zero_variance:
  assumes "\<forall>x \<in> set xs. x = c"
  shows "variance xs = 0"
proof (cases "xs = []")
  case True
  then show ?thesis by (simp add: variance_def)
next
  case False
  have "\<forall>x \<in> set xs. (real_of_int x - arithmetic_mean xs)\<^sup>2 = 0"
    using assms mean_constant [OF assms False] by simp
  then have "squared_deviations xs = 0"
    unfolding squared_deviations_def by (rule sum_list_all_zero)
  then show ?thesis by (simp add: variance_def)
qed

lemma variance_zero_iff:
  assumes "xs \<noteq> []"
  shows "variance xs = 0 \<longleftrightarrow> squared_deviations xs = 0"
  using assms by (simp add: variance_def)

lemma pearson_r_never_NaN: "pearson_r predictions ground_truths \<noteq> Inr NaN"
  by (auto simp add: pearson_r_def quotient_or_NaN_def variance_def)

text \<open>
  C7. For a non-empty pair of arrays of equal length of which one has zero variance, the
  linear correlation is exactly 0; the quotient without the guard would be \<open>NaN\<close> there.
  A constant array has zero variance (\<open>constant_zero_variance\<close>), and the metric is
  \<open>NaN\<close> for no input (\<open>pearson_r_never_NaN\<close>).
\<close>

theorem pearson_r_zero_variance:
  assumes "length predictions = length ground_truths" and "predictions \<noteq> []"
    and "variance predictions = 0 \<or> variance ground_truths = 0"
  shows "pearson_r predictions ground_truths = Inr (Number 0)
       \<and> pearson_r_unguarded predictions ground_truths = Inr NaN"
proof -
  have nonempty: "ground_truths \<noteq> []" using assms(1,2) by auto
  have "squared_deviations predictions = 0 \<or> squared_deviations ground_truths = 0"
    using assms(3) variance_zero_iff [OF assms(2)] variance_zero_iff [OF nonempty] by blast
  then have "sqrt (squared_deviations predictions * squared_deviations ground_truths) = 0"
    by auto
  then show ?thesis
    using assms by (simp add: pearson_r_def pearson_r_unguarded_def quotient_or_NaN_def)
qed

theorem pearson_r_zero_variance_witness:
  "length [3, 3, 3 :: int] = length [2, 4, 3 :: int] \<and> [3, 3, 3 :: int] \<noteq> []
   \<and> variance [3, 3, 3] = 0
   \<and> pearson_r [3, 3, 3] [2, 4, 3] = Inr (Number 0)"
proof -
  have len: "length [3, 3, 3 :: int] = length [2, 4, 3 :: int]" by simp
  have nonempty: "[3, 3, 3 :: int] \<noteq> []" by simp
  have flat: "variance [3, 3, 3] = 0" by (rule constant_zero_variance [of _ 3]) simp
  from pearson_r_zero_variance [OF len nonempty disjI1 [OF flat]] len nonempty flat
  show ?thesis by simp
qed

end
